theory Spec2Isabelle
  imports Main
begin

section \<open>Strings as the scripts use them\<close>

text \<open>
  JavaScript strings are modelled as \<open>string\<close> (lists of characters). A value that the
  script may find missing (\<open>undefined\<close> or \<open>null\<close>) is an \<open>option\<close>; \<open>falsy\<close> is the
  test \<open>!v\<close> on such a value: missing or the empty string.
\<close>

definition falsy :: "string option \<Rightarrow> bool" where
  "falsy v = (case v of None \<Rightarrow> True | Some s \<Rightarrow> s = [])"

text \<open>\<open>String.prototype.startsWith\<close>: \<open>startsWith s p\<close> is \<open>s.startsWith(p)\<close>.\<close>

fun startsWith :: "string \<Rightarrow> string \<Rightarrow> bool" where
  "startsWith s [] = True"
| "startsWith [] (p # ps) = False"
| "startsWith (c # cs) (p # ps) = (c = p \<and> startsWith cs ps)"

text \<open>\<open>String.prototype.includes\<close>: \<open>str_includes s p\<close> is \<open>s.includes(p)\<close>.\<close>

fun str_includes :: "string \<Rightarrow> string \<Rightarrow> bool" where
  "str_includes [] p = (p = [])"
| "str_includes (c # cs) p = (startsWith (c # cs) p \<or> str_includes cs p)"

text \<open>
  \<open>String.prototype.trim\<close> removes white space and line terminators from both ends.
  Characters here are 8-bit, so the white space of ECMAScript that fits is TAB, LF, VT,
  FF, CR, SP and NBSP (code 160).
\<close>

definition is_space :: "char \<Rightarrow> bool" where
  "is_space c = (of_char c \<in> {9, 10, 11, 12, 13, 32, 160 :: nat})"

definition trim :: "string \<Rightarrow> string" where
  "trim s = rev (dropWhile is_space (rev (dropWhile is_space s)))"

section \<open>Readiness metrics and the empty-output heuristic\<close>

text \<open>
  The readiness record a tab answers to \<open>waitForContentReady\<close> or \<open>waitForTopicReady\<close>.
  An error answer \<open>{ ready: false, error }\<close> has no \<open>metrics\<close> field, so the field is
  optional.
\<close>

record metrics =
  hasContainer :: bool
  textLength :: nat
  meaningfulCount :: nat
  hasMermaid :: bool

record readiness =
  ready :: bool
  timedOut :: bool
  urlOk :: bool
  r_metrics :: "metrics option"

definition CONTENT_READY_MIN_TEXT :: nat where
  "CONTENT_READY_MIN_TEXT = 160"

definition CONTENT_READY_TIMEOUT :: int where
  "CONTENT_READY_TIMEOUT = 20000"

definition MESSAGE_TIMEOUT :: int where
  "MESSAGE_TIMEOUT = 30000"

text \<open>\<open>readiness?.metrics\<close>\<close>

definition metrics_of :: "readiness option \<Rightarrow> metrics option" where
  "metrics_of r = (case r of None \<Rightarrow> None | Some x \<Rightarrow> r_metrics x)"

text \<open>
  \<open>isMarkdownSuspiciouslyEmpty(markdown, readiness)\<close>; \<open>markdown\<close> may be missing
  (\<open>markdown || ''\<close>).
\<close>

definition isMarkdownSuspiciouslyEmpty :: "string option \<Rightarrow> readiness option \<Rightarrow> bool" where
  "isMarkdownSuspiciouslyEmpty markdown rd =
     (let len = length (trim (case markdown of None \<Rightarrow> [] | Some m \<Rightarrow> m)) in
      if len \<ge> 80 then False
      else case metrics_of rd of
             None \<Rightarrow> len < 20
           | Some m \<Rightarrow>
               (textLength m \<ge> CONTENT_READY_MIN_TEXT \<or> meaningfulCount m \<ge> 6 \<or> hasMermaid m)
               \<and> len < 80)"

text \<open>The trimmed length the heuristic measures.\<close>

definition trimmed_length :: "string option \<Rightarrow> nat" where
  "trimmed_length markdown = length (trim (case markdown of None \<Rightarrow> [] | Some m \<Rightarrow> m))"

section \<open>Addresses\<close>

text \<open>
  The parts of a parsed \<open>URL\<close> object that the scripts read. The \<open>URL\<close> constructor
  belongs to the browser, so every function that calls \<open>new URL(s)\<close> takes the
  constructor as its first argument: \<open>None\<close> is the \<open>TypeError\<close> it throws on a string
  that does not parse.
\<close>

record url =
  origin :: string
  pathname :: string
  hash :: string
  hostname :: string

type_synonym url_parser = "string \<Rightarrow> url option"

text \<open>The string a non-falsy value holds (\<open>v || ''\<close>).\<close>

definition str :: "string option \<Rightarrow> string" where
  "str v = (case v of None \<Rightarrow> [] | Some s \<Rightarrow> s)"

text \<open>
  \<open>urlsRoughlyMatch(expectedUrl, actualUrl)\<close> of the background script with the hash
  check (the copy with fragment navigation and topics).
\<close>

definition urlsRoughlyMatch :: "url_parser \<Rightarrow> string option \<Rightarrow> string option \<Rightarrow> bool" where
  "urlsRoughlyMatch URL expectedUrl actualUrl =
     (if falsy expectedUrl \<or> falsy actualUrl then True
      else case URL (str expectedUrl) of
             None \<Rightarrow> True
           | Some expected \<Rightarrow>
               (case URL (str actualUrl) of
                  None \<Rightarrow> True
                | Some actual \<Rightarrow>
                    if origin expected \<noteq> origin actual then False
                    else if hash expected \<noteq> [] \<and> hash expected \<noteq> hash actual then False
                    else startsWith (pathname actual) (pathname expected) \<or>
                         startsWith (pathname expected) (pathname actual)))"

text \<open>\<open>urlsRoughlyMatch\<close> as \<open>src/background.js\<close> has it: no hash check.\<close>

definition bg_urlsRoughlyMatch :: "url_parser \<Rightarrow> string option \<Rightarrow> string option \<Rightarrow> bool" where
  "bg_urlsRoughlyMatch URL expectedUrl actualUrl =
     (if falsy expectedUrl \<or> falsy actualUrl then True
      else case URL (str expectedUrl) of
             None \<Rightarrow> True
           | Some expected \<Rightarrow>
               (case URL (str actualUrl) of
                  None \<Rightarrow> True
                | Some actual \<Rightarrow>
                    if origin expected \<noteq> origin actual then False
                    else startsWith (pathname actual) (pathname expected) \<or>
                         startsWith (pathname expected) (pathname actual)))"

text \<open>
  A promise is pending, or settled once: resolved with a value or rejected with the
  message of its \<open>Error\<close>.
\<close>

datatype 'a settled = Resolved 'a | Rejected string

text \<open>
  \<open>waitForTabUrl(tabId, expectedUrl, timeoutMs)\<close>. Each run of \<open>poll\<close> asks the browser
  for the tab; the browser's answers are the list of observations: the error of
  \<open>chrome.runtime.lastError\<close> or the tab's \<open>url\<close>, and the reading of \<open>Date.now()\<close> in
  that callback. \<open>None\<close> is a promise still pending after the observations given (the next
  poll is scheduled \<open>intervalMs\<close> later).
\<close>

record tab_poll =
  poll_now :: int
  poll_tab :: "string + string option"

fun poll :: "url_parser \<Rightarrow> string option \<Rightarrow> int \<Rightarrow> int \<Rightarrow> tab_poll list \<Rightarrow> unit settled option" where
  "poll URL expectedUrl start timeoutMs [] = None"
| "poll URL expectedUrl start timeoutMs (p # ps) =
     (case poll_tab p of
        Inl err \<Rightarrow> Some (Rejected err)
      | Inr tabUrl \<Rightarrow>
          if urlsRoughlyMatch URL expectedUrl tabUrl then Some (Resolved ())
          else if poll_now p - start \<ge> timeoutMs
            then Some (Rejected ''Tab URL did not reach expected value in time.'')
          else poll URL expectedUrl start timeoutMs ps)"

definition waitForTabUrl ::
  "url_parser \<Rightarrow> string option \<Rightarrow> int \<Rightarrow> int \<Rightarrow> tab_poll list \<Rightarrow> unit settled option" where
  "waitForTabUrl URL expectedUrl timeoutMs start polls =
     (if falsy expectedUrl then Some (Resolved ())
      else poll URL expectedUrl start timeoutMs polls)"

text \<open>
  \<open>waitForNavigation(tabId, expectedUrl)\<close>: a promise, the flag \<open>settled\<close>, two listeners
  and a timer, driven by what arrives: the outcome of \<open>waitForTabUrl\<close>, a
  \<open>webNavigation.onCompleted\<close> or \<open>onErrorOccurred\<close> event, or the timer. \<open>cleanup\<close> clears
  the timer and removes both listeners; a promise keeps its first outcome.
\<close>

record nav_details =
  d_tabId :: nat
  d_frameId :: nat
  d_url :: "string option"
  d_error :: "string option"

datatype nav_signal =
    TabUrlSettled "unit settled"
  | OnCompleted nav_details
  | OnErrorOccurred nav_details
  | TimerFired

record nav_wait =
  nav_settled :: bool
  nav_listening :: bool
  nav_timer :: bool
  nav_promise :: "unit settled option"

definition nav_start :: nav_wait where
  "nav_start = \<lparr>nav_settled = False, nav_listening = True, nav_timer = True, nav_promise = None\<rparr>"

definition cleanup :: "nav_wait \<Rightarrow> nav_wait" where
  "cleanup w = w\<lparr>nav_timer := False, nav_listening := False\<rparr>"

definition nav_settle :: "unit settled \<Rightarrow> nav_wait \<Rightarrow> nav_wait" where
  "nav_settle r w = (case nav_promise w of None \<Rightarrow> w\<lparr>nav_promise := Some r\<rparr> | Some _ \<Rightarrow> w)"

fun waitForNavigation_step ::
  "url_parser \<Rightarrow> nat \<Rightarrow> string option \<Rightarrow> nav_signal \<Rightarrow> nav_wait \<Rightarrow> nav_wait" where
  "waitForNavigation_step URL tabId expectedUrl (TabUrlSettled (Resolved u)) w =
     (if nav_settled w then w
      else nav_settle (Resolved ()) (cleanup (w\<lparr>nav_settled := True\<rparr>)))"
| "waitForNavigation_step URL tabId expectedUrl (TabUrlSettled (Rejected e)) w = w"
| "waitForNavigation_step URL tabId expectedUrl (OnCompleted details) w =
     (if \<not> nav_listening w then w
      else if d_tabId details = tabId \<and> d_frameId details = 0 \<and>
              urlsRoughlyMatch URL expectedUrl (d_url details)
        then (if nav_settled w then w
              else nav_settle (Resolved ()) (cleanup (w\<lparr>nav_settled := True\<rparr>)))
      else w)"
| "waitForNavigation_step URL tabId expectedUrl (OnErrorOccurred details) w =
     (if \<not> nav_listening w then w
      else if d_tabId details = tabId \<and> d_frameId details = 0
        then (if nav_settled w then w
              else nav_settle
                     (Rejected (if falsy (d_error details) then ''Navigation error''
                                else str (d_error details)))
                     (cleanup (w\<lparr>nav_settled := True\<rparr>)))
      else w)"
| "waitForNavigation_step URL tabId expectedUrl TimerFired w =
     (if \<not> nav_timer w then w
      else nav_settle (Rejected ''Navigation timeout.'') (cleanup w))"

text \<open>
  A parser for concrete runs: absolute \<open>http\<close> and \<open>https\<close> addresses written
  \<open>scheme://host/path?query#fragment\<close> in lower case, without credentials, default port,
  dot segments or characters that the browser would escape. On these the browser's
  constructor returns the same parts; a string without \<open>://\<close> after an \<open>http\<close> or
  \<open>https\<close> scheme does not parse here, and the browser rejects it as well when it has no
  scheme at all.
\<close>

definition simple_URL :: url_parser where
  "simple_URL s =
     (let scheme = takeWhile (\<lambda>c. c \<noteq> CHR '':'') s;
          rest = dropWhile (\<lambda>c. c \<noteq> CHR '':'') s
      in if (scheme = ''http'' \<or> scheme = ''https'') \<and> startsWith rest ''://'' then
           (let r = drop 3 rest;
                host = takeWhile (\<lambda>c. c \<noteq> CHR ''/'' \<and> c \<noteq> CHR ''?'' \<and> c \<noteq> CHR ''#'') r;
                r1 = dropWhile (\<lambda>c. c \<noteq> CHR ''/'' \<and> c \<noteq> CHR ''?'' \<and> c \<noteq> CHR ''#'') r;
                path = takeWhile (\<lambda>c. c \<noteq> CHR ''?'' \<and> c \<noteq> CHR ''#'') r1;
                frag = dropWhile (\<lambda>c. c \<noteq> CHR ''#'') r1
            in if host = [] then None
               else Some \<lparr>origin = scheme @ ''://'' @ host,
                          pathname = (if path = [] then ''/'' else path),
                          hash = (if frag = ''#'' then [] else frag),
                          hostname = takeWhile (\<lambda>c. c \<noteq> CHR '':'') host\<rparr>)
         else None)"

section \<open>The readiness probe of the content script\<close>






record ready_result = readiness +
  currentUrl :: string
  expectedUrl :: string










section \<open>The delivery queue of the background script\<close>

text \<open>The payloads the background script sends to a tab, and their \<open>action\<close> field.\<close>

record signature =
  sg_heading :: string
  sg_snippet :: string
  sg_textLength :: nat
  sg_hash :: string

datatype message =
    ConvertToMarkdown
  | ExtractAllPages
  | GetContentSignature
  | SelectDevinTopic int string
  | WaitForTopicReady string "signature option" int nat
  | WaitForContentReady "string option" int nat
  | PageLoaded
  | TabActivated

fun action :: "message \<Rightarrow> string" where
  "action ConvertToMarkdown = ''convertToMarkdown''"
| "action ExtractAllPages = ''extractAllPages''"
| "action GetContentSignature = ''getContentSignature''"
| "action (SelectDevinTopic i t) = ''selectDevinTopic''"
| "action (WaitForTopicReady t sg ms n) = ''waitForTopicReady''"
| "action (WaitForContentReady u ms n) = ''waitForContentReady''"
| "action PageLoaded = ''pageLoaded''"
| "action TabActivated = ''tabActivated''"

text \<open>
  A queue item wraps the \<open>resolve\<close> and \<open>reject\<close> of one promise, named here by the
  number of that promise, and owns one timer; the handle in \<open>queueItem.timeoutId\<close> is
  represented by the item itself.
\<close>

record queue_item =
  q_message :: message
  q_promise :: nat

record tab_entry =
  isReady :: bool
  queue :: "queue_item list"
  lastUrl :: "string option"

text \<open>
  A call of \<open>chrome.tabs.sendMessage\<close> waits for the browser to run its callback: the
  callback of \<open>dispatchMessageToTab\<close> for an item, the callback of
  \<open>attemptDirectMessage\<close> for a promise (with the flag telling whether
  \<open>sendMessageToTab\<close> attached the \<open>catch\<close> handler that queues), or the callback of a
  ping, which only logs.
\<close>

datatype callback =
    DispatchCallback queue_item
  | DirectCallback nat bool
  | PingCallback

record in_flight =
  f_tab :: nat
  f_message :: message
  f_callback :: callback

text \<open>
  The state of the background script that the queue uses: \<open>messageQueue\<close>, the promises
  handed to callers (\<open>None\<close> is pending), the running timers with the time they are due,
  the calls waiting for their callback, the log of every \<open>chrome.tabs.sendMessage\<close> call
  (tab, payload, promise served), the time, and the number of the next promise.
\<close>

record 'r background =
  messageQueue :: "nat \<Rightarrow> tab_entry option"
  promises :: "nat \<Rightarrow> 'r settled option"
  timers :: "(int \<times> queue_item) list"
  wire :: "in_flight list"
  sent :: "(nat \<times> message \<times> nat option) list"
  clock :: int
  next_promise :: nat

definition init :: "'r background" where
  "init = \<lparr>messageQueue = (\<lambda>t. None), promises = (\<lambda>p. None), timers = [], wire = [],
            sent = [], clock = 0, next_promise = 0\<rparr>"

text \<open>Settling a promise: the first outcome stays.\<close>

definition settle :: "nat \<Rightarrow> 'r settled \<Rightarrow> 'r background \<Rightarrow> 'r background" where
  "settle p out s =
     (case promises s p of
        None \<Rightarrow> s\<lparr>promises := (promises s)(p \<mapsto> out)\<rparr>
      | Some _ \<Rightarrow> s)"

definition clearTimeout :: "queue_item \<Rightarrow> 'r background \<Rightarrow> 'r background" where
  "clearTimeout item s = s\<lparr>timers := filter (\<lambda>(due, it). it \<noteq> item) (timers s)\<rparr>"

text \<open>\<open>queueItem.resolve\<close> and \<open>queueItem.reject\<close>\<close>

definition item_resolve :: "queue_item \<Rightarrow> 'r \<Rightarrow> 'r background \<Rightarrow> 'r background" where
  "item_resolve item response s = settle (q_promise item) (Resolved response) (clearTimeout item s)"

definition item_reject :: "queue_item \<Rightarrow> string \<Rightarrow> 'r background \<Rightarrow> 'r background" where
  "item_reject item err s = settle (q_promise item) (Rejected err) (clearTimeout item s)"

definition markTabPending :: "nat \<Rightarrow> 'r background \<Rightarrow> 'r background" where
  "markTabPending tabId s =
     (case messageQueue s tabId of
        None \<Rightarrow> s\<lparr>messageQueue := (messageQueue s)
                      (tabId \<mapsto> \<lparr>isReady = False, queue = [], lastUrl = None\<rparr>)\<rparr>
      | Some entry \<Rightarrow> s\<lparr>messageQueue := (messageQueue s)(tabId \<mapsto> entry\<lparr>isReady := False\<rparr>)\<rparr>)"

text \<open>\<open>chrome.tabs.sendMessage(tabId, message, callback)\<close>\<close>

definition tabs_sendMessage ::
  "nat \<Rightarrow> message \<Rightarrow> callback \<Rightarrow> nat option \<Rightarrow> 'r background \<Rightarrow> 'r background" where
  "tabs_sendMessage tabId m cb p s =
     s\<lparr>wire := wire s @ [\<lparr>f_tab = tabId, f_message = m, f_callback = cb\<rparr>],
       sent := sent s @ [(tabId, m, p)]\<rparr>"

definition dispatchMessageToTab :: "nat \<Rightarrow> queue_item \<Rightarrow> 'r background \<Rightarrow> 'r background" where
  "dispatchMessageToTab tabId item s =
     tabs_sendMessage tabId (q_message item) (DispatchCallback item) (Some (q_promise item)) s"

text \<open>
  The loop of \<open>flushMessageQueue\<close>: while the queue of the entry is not empty, shift its
  first item and dispatch it.
\<close>

definition queue_length :: "nat \<Rightarrow> 'r background \<Rightarrow> nat" where
  "queue_length tabId s = (case messageQueue s tabId of None \<Rightarrow> 0 | Some e \<Rightarrow> length (queue e))"

function flush_loop :: "nat \<Rightarrow> 'r background \<Rightarrow> 'r background" where
  "flush_loop tabId s =
     (case messageQueue s tabId of
        None \<Rightarrow> s
      | Some entry \<Rightarrow>
          (case queue entry of
             [] \<Rightarrow> s
           | payload # rest \<Rightarrow>
               flush_loop tabId
                 (dispatchMessageToTab tabId payload
                    (s\<lparr>messageQueue := (messageQueue s)(tabId \<mapsto> entry\<lparr>queue := rest\<rparr>)\<rparr>))))"
  by pat_completeness auto
termination
  by (relation "measure (\<lambda>(tabId, s). queue_length tabId s)")
     (auto simp: queue_length_def dispatchMessageToTab_def tabs_sendMessage_def)

definition flushMessageQueue :: "nat \<Rightarrow> 'r background \<Rightarrow> 'r background" where
  "flushMessageQueue tabId s =
     (case messageQueue s tabId of
        None \<Rightarrow> s
      | Some entry \<Rightarrow>
          flush_loop tabId (s\<lparr>messageQueue := (messageQueue s)(tabId \<mapsto> entry\<lparr>isReady := True\<rparr>)\<rparr>))"

text \<open>
  \<open>queueMessageForTab(tabId, message, resolve, reject)\<close>, with the promise that \<open>resolve\<close>
  and \<open>reject\<close> settle; the timer is due \<open>MESSAGE_TIMEOUT\<close> after the call.
\<close>

definition queueMessageForTab ::
  "nat \<Rightarrow> message \<Rightarrow> nat \<Rightarrow> 'r background \<Rightarrow> 'r background" where
  "queueMessageForTab tabId m p s =
     (let entry = (case messageQueue s tabId of
                     None \<Rightarrow> \<lparr>isReady = False, queue = [], lastUrl = None\<rparr>
                   | Some e \<Rightarrow> e);
          queueItem = \<lparr>q_message = m, q_promise = p\<rparr>
      in s\<lparr>timers := timers s @ [(clock s + MESSAGE_TIMEOUT, queueItem)],
           messageQueue := (messageQueue s)(tabId \<mapsto> entry\<lparr>queue := queue entry @ [queueItem]\<rparr>)\<rparr>)"

definition attemptDirectMessage ::
  "nat \<Rightarrow> message \<Rightarrow> nat \<Rightarrow> bool \<Rightarrow> 'r background \<Rightarrow> 'r background" where
  "attemptDirectMessage tabId m p fallback s =
     tabs_sendMessage tabId m (DirectCallback p fallback) (Some p) s"

definition shouldQueueForError :: "string \<Rightarrow> bool" where
  "shouldQueueForError err =
     (if err = [] then False
      else str_includes err ''Receiving end does not exist'' \<or>
           str_includes err ''Could not establish connection'')"

text \<open>
  \<open>sendMessageToTab(tabId, message)\<close> returns a new promise: queued when the entry is
  marked pending, a direct attempt when the entry is marked ready, and a direct attempt
  with the queueing \<open>catch\<close> handler when the tab has no entry.
\<close>

definition sendMessageToTab :: "nat \<Rightarrow> message \<Rightarrow> 'r background \<Rightarrow> nat \<times> 'r background" where
  "sendMessageToTab tabId m s =
     (let p = next_promise s; s0 = s\<lparr>next_promise := Suc p\<rparr> in
      case messageQueue s tabId of
        Some entry \<Rightarrow>
          if \<not> isReady entry then (p, queueMessageForTab tabId m p s0)
          else (p, attemptDirectMessage tabId m p False s0)
      | None \<Rightarrow> (p, attemptDirectMessage tabId m p True s0))"

text \<open>
  The browser runs a callback with \<open>chrome.runtime.lastError\<close> set (\<open>Inl\<close> its message)
  or with the response of the tab.
\<close>

definition run_callback :: "in_flight \<Rightarrow> string + 'r \<Rightarrow> 'r background \<Rightarrow> 'r background" where
  "run_callback f answer s =
     (case f_callback f of
        DispatchCallback item \<Rightarrow>
          (case answer of
             Inl err \<Rightarrow> item_reject item err s
           | Inr response \<Rightarrow> item_resolve item response s)
      | DirectCallback p fallback \<Rightarrow>
          (case answer of
             Inl err \<Rightarrow>
               if fallback \<and> shouldQueueForError err
               then queueMessageForTab (f_tab f) (f_message f) p s
               else settle p (Rejected err) s
           | Inr response \<Rightarrow> settle p (Resolved response) s)
      | PingCallback \<Rightarrow> s)"

text \<open>The timer of a queue item fires.\<close>

definition timeout_error :: "message \<Rightarrow> string" where
  "timeout_error m = ''Timed out waiting for response for '' @ action m"

definition fire :: "int \<times> queue_item \<Rightarrow> 'r background \<Rightarrow> 'r background" where
  "fire t s =
     (if t \<in> set (timers s)
      then item_reject (snd t) (timeout_error (q_message (snd t)))
             (s\<lparr>timers := remove1 t (timers s)\<rparr>)
      else s)"

definition elapse :: "nat \<Rightarrow> 'r background \<Rightarrow> 'r background" where
  "elapse d s =
     (let s1 = s\<lparr>clock := clock s + int d\<rparr>
      in fold fire (filter (\<lambda>(due, it). due \<le> clock s1) (timers s1)) s1)"

text \<open>The handler of the \<open>contentScriptReady\<close> message from a tab.\<close>

definition contentScriptReady :: "nat \<Rightarrow> string option \<Rightarrow> 'r background \<Rightarrow> 'r background" where
  "contentScriptReady tabId tabUrl s =
     flushMessageQueue tabId
       (case messageQueue s tabId of
          None \<Rightarrow> s\<lparr>messageQueue := (messageQueue s)
                        (tabId \<mapsto> \<lparr>isReady = True, queue = [], lastUrl = tabUrl\<rparr>)\<rparr>
        | Some entry \<Rightarrow>
            s\<lparr>messageQueue := (messageQueue s)
                 (tabId \<mapsto> (if falsy tabUrl then entry\<lparr>isReady := True\<rparr>
                            else entry\<lparr>isReady := True, lastUrl := tabUrl\<rparr>))\<rparr>)"

text \<open>The queue's part of the \<open>tabs.onRemoved\<close> handler.\<close>

definition tabRemoved :: "nat \<Rightarrow> 'r background \<Rightarrow> 'r background" where
  "tabRemoved tabId s =
     (case messageQueue s tabId of
        None \<Rightarrow> s
      | Some entry \<Rightarrow>
          (fold (\<lambda>item. item_reject item ''Tab closed.'') (queue entry) s)
            \<lparr>messageQueue := (messageQueue s)(tabId := None)\<rparr>)"

text \<open>\<open>isValidUrl(url)\<close>: the address names a supported site.\<close>

definition isValidUrl :: "string option \<Rightarrow> bool" where
  "isValidUrl u =
     (\<not> falsy u \<and> (str_includes (str u) ''deepwiki.com'' \<or> str_includes (str u) ''devin.ai''))"

text \<open>
  The \<open>tabs.onUpdated\<close> handler: it marks the tab pending at the start of a load or on a
  change of address, unless origin and path stay the same, records the new address, and
  pings the tab when the load is complete.
\<close>

record change_info =
  ci_status :: "string option"
  ci_url :: "string option"

definition same_base :: "url \<Rightarrow> url \<Rightarrow> bool" where
  "same_base oldUrl newUrl = (origin oldUrl = origin newUrl \<and> pathname oldUrl = pathname newUrl)"

definition first_truthy :: "string option list \<Rightarrow> string option" where
  "first_truthy vs = (case filter (\<lambda>v. \<not> falsy v) vs of [] \<Rightarrow> (if vs = [] then None else last vs) | v # _ \<Rightarrow> v)"

definition onUpdated ::
  "url_parser \<Rightarrow> nat \<Rightarrow> change_info \<Rightarrow> string option \<Rightarrow> 'r background \<Rightarrow> 'r background" where
  "onUpdated URL tabId changeInfo tabUrl s =
     (if \<not> isValidUrl tabUrl then s
      else
        let s1 =
          (if ci_status changeInfo = Some ''loading'' then
             (case messageQueue s tabId of
                None \<Rightarrow> markTabPending tabId s
              | Some entry \<Rightarrow>
                  if falsy (lastUrl entry) then markTabPending tabId s
                  else (case URL (str (lastUrl entry)) of
                          None \<Rightarrow> markTabPending tabId s
                        | Some oldUrl \<Rightarrow>
                            (case URL (str (first_truthy [tabUrl, ci_url changeInfo, lastUrl entry])) of
                               None \<Rightarrow> markTabPending tabId s
                             | Some newUrl \<Rightarrow>
                                 if \<not> same_base oldUrl newUrl then markTabPending tabId s else s)))
           else if \<not> falsy (ci_url changeInfo) then
             (let s2 =
                (case messageQueue s tabId of
                   None \<Rightarrow> markTabPending tabId s
                 | Some entry \<Rightarrow>
                     if falsy (lastUrl entry) then markTabPending tabId s
                     else (case URL (str (lastUrl entry)) of
                             None \<Rightarrow> markTabPending tabId s
                           | Some oldUrl \<Rightarrow>
                               (case URL (str (ci_url changeInfo)) of
                                  None \<Rightarrow> markTabPending tabId s
                                | Some newUrl \<Rightarrow>
                                    if same_base oldUrl newUrl then s else markTabPending tabId s)))
              in case messageQueue s2 tabId of
                   None \<Rightarrow> s2\<lparr>messageQueue := (messageQueue s2)
                                 (tabId \<mapsto> \<lparr>isReady = True, queue = [],
                                             lastUrl = ci_url changeInfo\<rparr>)\<rparr>
                 | Some entry \<Rightarrow> s2\<lparr>messageQueue := (messageQueue s2)
                                 (tabId \<mapsto> entry\<lparr>lastUrl := ci_url changeInfo\<rparr>)\<rparr>)
           else s)
        in if ci_status changeInfo = Some ''complete''
           then tabs_sendMessage tabId PageLoaded PingCallback None s1
           else s1)"

text \<open>The \<open>tabs.onActivated\<close> handler pings a tab on a supported site.\<close>

definition onActivated :: "nat \<Rightarrow> string option option \<Rightarrow> 'r background \<Rightarrow> 'r background" where
  "onActivated tabId tab s =
     (case tab of
        None \<Rightarrow> s
      | Some tabUrl \<Rightarrow>
          if isValidUrl tabUrl then tabs_sendMessage tabId TabActivated PingCallback None s else s)"

text \<open>
  What can happen to the background script, one event at a time: a caller sends, the
  browser runs the callback of the \<open>k\<close>-th waiting call, a tab announces its content
  script, the navigation code marks a tab pending, a tab is updated, activated or
  removed, or time passes and the due timers fire.
\<close>

datatype 'r event =
    Send nat message
  | Answer nat "string + 'r"
  | Ready nat "string option"
  | Pending nat
  | Updated nat change_info "string option"
  | Activated nat "string option option"
  | Removed nat
  | Elapse nat

fun step :: "url_parser \<Rightarrow> 'r event \<Rightarrow> 'r background \<Rightarrow> 'r background" where
  "step URL (Send tabId m) s = snd (sendMessageToTab tabId m s)"
| "step URL (Answer k answer) s =
     (if k < length (wire s)
      then run_callback (wire s ! k) answer (s\<lparr>wire := take k (wire s) @ drop (Suc k) (wire s)\<rparr>)
      else s)"
| "step URL (Ready tabId tabUrl) s = contentScriptReady tabId tabUrl s"
| "step URL (Pending tabId) s = markTabPending tabId s"
| "step URL (Updated tabId changeInfo tabUrl) s = onUpdated URL tabId changeInfo tabUrl s"
| "step URL (Activated tabId tab) s = onActivated tabId tab s"
| "step URL (Removed tabId) s = tabRemoved tabId s"
| "step URL (Elapse d) s = elapse d s"

definition run :: "url_parser \<Rightarrow> 'r event list \<Rightarrow> 'r background \<Rightarrow> 'r background" where
  "run URL evs s = fold (step URL) evs s"

text \<open>The call on the wire and the entry of the log that dispatching an item produces.\<close>

definition flight :: "nat \<Rightarrow> queue_item \<Rightarrow> in_flight" where
  "flight tabId item = \<lparr>f_tab = tabId, f_message = q_message item, f_callback = DispatchCallback item\<rparr>"

definition logged :: "nat \<Rightarrow> queue_item \<Rightarrow> nat \<times> message \<times> nat option" where
  "logged tabId item = (tabId, q_message item, Some (q_promise item))"

text \<open>
  The promise of an item is settled, or the timer of the item, due at \<open>d\<close>, is running
  and not yet due.
\<close>

definition settled_or_timed :: "queue_item \<Rightarrow> int \<Rightarrow> 'r background \<Rightarrow> bool" where
  "settled_or_timed item d s =
     (promises s (q_promise item) \<noteq> None \<or> ((d, item) \<in> set (timers s) \<and> clock s < d))"

text \<open>
  The items that \<open>sendMessageToTab\<close> queues for the payloads \<open>ms\<close>, sent one after the
  other to a pending tab, when the next promise is number \<open>n\<close>.
\<close>

definition new_items :: "nat \<Rightarrow> message list \<Rightarrow> queue_item list" where
  "new_items n ms = map (\<lambda>(p, m). \<lparr>q_message = m, q_promise = p\<rparr>) (enumerate n ms)"

text \<open>
  States and an error message for concrete runs: tab 7 marked pending, tab 7 having
  announced its content script, and the message of the browser when a tab has no
  listener.
\<close>

definition pending_state :: "string background" where
  "pending_state = step simple_URL (Pending 7) init"



section \<open>File names\<close>

text \<open>The decimal digits of a number, as template literals print it.\<close>

definition digit :: "nat \<Rightarrow> char" where
  "digit d = char_of (48 + d)"

fun show_nat :: "nat \<Rightarrow> string" where
  "show_nat n = (if n < 10 then [digit n] else show_nat (n div 10) @ [digit (n mod 10)])"

declare show_nat.simps [simp del]

text \<open>
  \<open>sanitizeName(value, fallback)\<close>: the four replacements, in order, then the fallback for
  an empty result.
\<close>

definition forbidden :: "char \<Rightarrow> bool" where
  "forbidden c =
     (c \<in> {CHR 0x5C, CHR ''/'', CHR '':'', CHR ''*'', CHR ''?'', CHR 0x22, CHR ''<'', CHR ''>'',
            CHR ''|''})"

fun collapse :: "(char \<Rightarrow> bool) \<Rightarrow> string \<Rightarrow> string" where
  "collapse P [] = []"
| "collapse P [c] = [if P c then CHR ''-'' else c]"
| "collapse P (c # d # cs) =
     (if P c then (if P d then collapse P (d # cs) else CHR ''-'' # collapse P (d # cs))
      else c # collapse P (d # cs))"

definition strip_dash :: "string \<Rightarrow> string" where
  "strip_dash s =
     (let s1 = (case s of [] \<Rightarrow> [] | c # cs \<Rightarrow> if c = CHR ''-'' then cs else c # cs)
      in if s1 \<noteq> [] \<and> last s1 = CHR ''-'' then butlast s1 else s1)"

definition sanitizeName :: "string \<Rightarrow> string \<Rightarrow> string" where
  "sanitizeName v fallback =
     (if v = [] then fallback
      else let r = strip_dash
                     (collapse (\<lambda>c. c = CHR ''-'')
                        (collapse is_space
                           (map (\<lambda>c. if forbidden c then CHR ''-'' else c) v)))
           in if r = [] then fallback else r)"

text \<open>
  The loop of \<open>getUniqueFileName\<close>: while the candidate is taken, the next candidate is
  the base with the counter appended. It ends because the names taken are finitely many
  and the candidates all differ.
\<close>

function unique_loop :: "string list \<Rightarrow> string \<Rightarrow> string \<Rightarrow> nat \<Rightarrow> string" where
  "unique_loop names base candidate counter =
     (if candidate \<in> set names
      then unique_loop names base (base @ ''-'' @ show_nat counter) (Suc counter)
      else candidate)"
  by pat_completeness auto
termination
proof (relation "measure (\<lambda>(names, base, candidate, counter).
          card {k. counter \<le> k \<and> base @ ''-'' @ show_nat k \<in> set names}
          + (if candidate \<in> set names then 1 else 0))", goal_cases)
  case 1
  show ?case by simp
next
  case (2 names base candidate counter)
  have dg: "a = b" if "a < 10" "b < 10" "digit a = digit b" for a b :: nat
  proof -
    from that(3) have "of_char (digit a) = (of_char (digit b) :: nat)" by simp
    with that(1,2) show ?thesis by (simp add: digit_def)
  qed
  have ne: "show_nat n \<noteq> []" for n
    by (subst show_nat.simps) simp
  have small: "show_nat n = [digit n]" if "n < 10" for n
    using that by (subst show_nat.simps) simp
  have big: "show_nat n = show_nat (n div 10) @ [digit (n mod 10)]" if "\<not> n < 10" for n
    using that by (subst show_nat.simps) simp
  have sh: "show_nat m = show_nat n \<Longrightarrow> m = n" for m n
  proof (induction m arbitrary: n rule: show_nat.induct)
    case (1 m)
    show ?case
    proof (cases "m < 10")
      case m: True
      show ?thesis
      proof (cases "n < 10")
        case True
        with m "1.prems" show ?thesis
          by (simp add: small dg)
      next
        case False
        with m "1.prems" ne [of "n div 10"] show ?thesis
          by (simp add: small big Cons_eq_append_conv)
      qed
    next
      case m: False
      show ?thesis
      proof (cases "n < 10")
        case True
        with m "1.prems" ne [of "m div 10"] show ?thesis
          by (simp add: small big append_eq_Cons_conv)
      next
        case False
        from m False "1.prems"
        have "show_nat (m div 10) @ [digit (m mod 10)] = show_nat (n div 10) @ [digit (n mod 10)]"
          by (simp add: big)
        then have "show_nat (m div 10) = show_nat (n div 10)"
          and "digit (m mod 10) = digit (n mod 10)"
          by simp_all
        then have "m div 10 = n div 10" and "m mod 10 = n mod 10"
          using "1.IH" [OF m] dg [of "m mod 10" "n mod 10"] by simp_all
        then show ?thesis by (metis div_mult_mod_eq)
      qed
    qed
  qed
  let ?f = "\<lambda>k. base @ ''-'' @ show_nat k"
  let ?A = "\<lambda>c. {k. c \<le> k \<and> ?f k \<in> set names}"
  have "inj ?f" by (rule injI) (simp add: sh)
  then have "finite (?f -` set names)" by (simp add: finite_vimageI)
  then have fin: "finite (?A c)" for c
    by (rule rev_finite_subset) auto
  have "card (?A counter) = card (?A (Suc counter)) + (if ?f counter \<in> set names then 1 else 0)"
  proof (cases "?f counter \<in> set names")
    case True
    then have "?A counter = insert counter (?A (Suc counter))"
      by (auto simp: Suc_le_eq le_less)
    moreover have "card (insert counter (?A (Suc counter))) = Suc (card (?A (Suc counter)))"
      by (rule card_insert_disjoint [OF fin]) simp
    ultimately show ?thesis using True by (simp only: if_True) 
  next
    case False
    then have "?A counter = ?A (Suc counter)"
      by (auto simp: Suc_le_eq le_less)
    with False show ?thesis by (simp only: if_False)
  qed
  with 2 show ?case by simp
qed

section \<open>The batch run\<close>

text \<open>A page descriptor, a converted page, and the run-wide \<open>batchState\<close>.\<close>

record page =
  p_url :: string
  p_title :: string
  devinIndex :: "int option"
  numberPrefix :: "string option"

record converted_page =
  cp_title :: string
  cp_content :: "string option"

record batch_state =
  isRunning :: bool
  bs_tabId :: "nat option"
  originalUrl :: "string option"
  pages :: "page list"
  convertedPages :: "converted_page list"
  folderName :: string
  processed :: nat
  failed :: nat
  cancelRequested :: bool
  total :: nat
  currentTitle :: string
  fileNames :: "string list"

definition createInitialBatchState :: batch_state where
  "createInitialBatchState =
     \<lparr>isRunning = False, bs_tabId = None, originalUrl = None, pages = [], convertedPages = [],
      folderName = [], processed = 0, failed = 0, cancelRequested = False, total = 0,
      currentTitle = [], fileNames = []\<rparr>"

text \<open>The status record that \<open>broadcastBatchUpdate\<close> builds and keeps in \<open>lastBatchReport\<close>.\<close>

record report =
  r_type :: string
  r_running :: bool
  r_processed :: nat
  r_failed :: nat
  r_total :: nat
  r_cancelRequested :: "bool option"
  r_message :: string
  r_level :: string

text \<open>
  The awaits of \<open>processSinglePage\<close> and \<open>runBatchProcessing\<close>, in the order of the
  source. While the run waits at one of them the background script handles other
  messages; the one that changes the run's state is \<open>cancelBatch\<close>.
\<close>

datatype await_point =
    AwaitTab | AwaitNavigate | AwaitSignature | AwaitSelect | AwaitSleep350
  | AwaitTopicReady | AwaitScript | AwaitSleep500 | AwaitSleep100 | AwaitContent
  | AwaitConvert | AwaitSleep900 | AwaitRetryReady | AwaitRetryConvert | AwaitSleep250
  | AwaitZip

text \<open>
  The state of the background script that a run uses: \<open>batchState\<close>, \<open>lastBatchReport\<close>,
  and three logs: the status records handed to \<open>chrome.runtime.sendMessage\<close>, the
  payloads handed to \<open>sendMessageToTab\<close>, and the awaits performed.
\<close>

record batch =
  batchState :: batch_state
  lastBatchReport :: report
  broadcasts :: "report list"
  tab_log :: "message list"
  awaited :: "await_point list"

definition idle :: batch where
  "idle = \<lparr>batchState = createInitialBatchState,
           lastBatchReport = \<lparr>r_type = ''idle'', r_running = False, r_processed = 0, r_failed = 0,
              r_total = 0, r_cancelRequested = None, r_message = ''Batch converter ready.'',
              r_level = ''info''\<rparr>,
           broadcasts = [], tab_log = [], awaited = []\<rparr>"

text \<open>
  \<open>broadcastBatchUpdate(type, { message, level }, overrideRunning)\<close>; no caller passes
  counts in \<open>data\<close>, so the counts are those of \<open>batchState\<close>.
\<close>

definition broadcastBatchUpdate :: "string \<Rightarrow> string \<Rightarrow> string \<Rightarrow> bool option \<Rightarrow> batch \<Rightarrow> batch" where
  "broadcastBatchUpdate ty msg level overrideRunning s =
     (let b = batchState s;
          payload = \<lparr>r_type = ty,
                     r_running = (case overrideRunning of Some r \<Rightarrow> r | None \<Rightarrow> isRunning b),
                     r_processed = processed b, r_failed = failed b, r_total = total b,
                     r_cancelRequested = Some (cancelRequested b),
                     r_message = msg, r_level = level\<rparr>
      in s\<lparr>lastBatchReport := payload, broadcasts := broadcasts s @ [payload]\<rparr>)"

definition resetBatchState :: "batch \<Rightarrow> batch" where
  "resetBatchState s = s\<lparr>batchState := createInitialBatchState\<rparr>"

definition cancelBatchProcessing :: "batch \<Rightarrow> bool \<times> batch" where
  "cancelBatchProcessing s =
     (if \<not> isRunning (batchState s) then (False, s)
      else
        let s1 = s\<lparr>batchState := (batchState s)\<lparr>cancelRequested := True\<rparr>\<rparr>
        in (True,
            broadcastBatchUpdate ''cancelling''
              (''Cancelling... processed '' @ show_nat (processed (batchState s1)) @ ''/''
                 @ show_nat (total (batchState s1)) @ ''.'')
              ''info'' None s1))"

text \<open>
  An await: the point is logged, and the \<open>cancelBatch\<close> message, if one arrives while
  the run waits there, is handled.
\<close>

definition await :: "await_point \<Rightarrow> (await_point \<Rightarrow> bool) \<Rightarrow> batch \<Rightarrow> batch" where
  "await pt cancels s =
     (let s1 = s\<lparr>awaited := awaited s @ [pt]\<rparr>
      in if cancels pt then snd (cancelBatchProcessing s1) else s1)"

definition tab_send :: "message \<Rightarrow> batch \<Rightarrow> batch" where
  "tab_send m s = s\<lparr>tab_log := tab_log s @ [m]\<rparr>"

text \<open>\<open>getUniqueFileName(desired)\<close>\<close>

definition getUniqueFileName :: "string \<Rightarrow> batch \<Rightarrow> string \<times> batch" where
  "getUniqueFileName desired s =
     (let base = sanitizeName desired ''page'';
          candidate = unique_loop (fileNames (batchState s)) base base 1
      in (candidate,
          s\<lparr>batchState := (batchState s)
               \<lparr>fileNames := (if candidate \<in> set (fileNames (batchState s))
                               then fileNames (batchState s)
                               else fileNames (batchState s) @ [candidate])\<rparr>\<rparr>))"

text \<open>The answers of the tab that \<open>processSinglePage\<close> reads.\<close>

record convert_response =
  success :: bool
  markdown :: "string option"
  markdownTitle :: "string option"
  cr_error :: "string option"

record selection_response =
  sel_success :: bool
  sel_error :: "string option"

text \<open>
  What the world answers while one page is processed: for every await of
  \<open>processSinglePage\<close> its outcome (\<open>Inl\<close> is the message of the error a rejected promise
  carries; a missing response is \<open>None\<close>), and at which awaits a \<open>cancelBatch\<close> message
  is handled.
\<close>

record page_env =
  e_tab :: "string + string option"
  e_navigate :: "string option"
  e_signature :: "string + signature option"
  e_selection :: "string + selection_response option"
  e_topicReady :: "string + readiness option"
  e_script :: "string option"
  e_content :: "string + readiness option"
  e_convert :: "string + convert_response option"
  e_retryReady :: "string + readiness option"
  e_retryConvert :: "string + convert_response option"
  e_cancel :: "await_point \<Rightarrow> bool"

datatype outcome = Returned | Threw string

text \<open>\<open>x.replace(/\/$/, '')\<close>\<close>

definition strip_slash :: "string \<Rightarrow> string" where
  "strip_slash x = (if x \<noteq> [] \<and> last x = CHR ''/'' then butlast x else x)"

text \<open>\<open>waitForPageContent(tabId, expectedUrl)\<close>: an error of the send is caught.\<close>

definition waitForPageContent ::
  "await_point \<Rightarrow> string + readiness option \<Rightarrow> string \<Rightarrow> (await_point \<Rightarrow> bool) \<Rightarrow> batch
     \<Rightarrow> readiness option \<times> batch" where
  "waitForPageContent pt answer expected cancels s =
     (let s1 = await pt cancels
                 (tab_send (WaitForContentReady (Some expected) CONTENT_READY_TIMEOUT
                              CONTENT_READY_MIN_TEXT) s)
      in (case answer of Inl err \<Rightarrow> None | Inr response \<Rightarrow> response, s1))"

text \<open>
  The end of \<open>processSinglePage\<close>, from the choice of the file name: the page is recorded
  and counted.
\<close>

definition record_page :: "page_env \<Rightarrow> page \<Rightarrow> convert_response \<Rightarrow> batch \<Rightarrow> outcome \<times> batch" where
  "record_page env pg response s =
     (let baseTitle = (if falsy (markdownTitle response) then p_title pg
                       else str (markdownTitle response));
          baseTitle1 = (if falsy (numberPrefix pg) then baseTitle
                        else str (numberPrefix pg) @ ''-'' @ baseTitle);
          (fileName, s1) = getUniqueFileName baseTitle1 s;
          b = batchState s1;
          s2 = s1\<lparr>batchState := b\<lparr>convertedPages := convertedPages b
                                       @ [\<lparr>cp_title = fileName, cp_content = markdown response\<rparr>],
                                  processed := processed b + 1\<rparr>\<rparr>;
          s3 = broadcastBatchUpdate ''pageProcessed''
                 (''Converted '' @ show_nat (processed (batchState s2)) @ ''/''
                    @ show_nat (total (batchState s2)) @ '': '' @ p_title pg)
                 ''info'' None s2
      in (Returned, await AwaitSleep250 (e_cancel env) s3))"

text \<open>
  The conversion of \<open>processSinglePage\<close>: the first \<open>convertToMarkdown\<close>, and after a
  suspiciously empty output the pause, the second readiness probe and the second
  \<open>convertToMarkdown\<close>.
\<close>

definition retry_message :: "bool \<Rightarrow> page \<Rightarrow> signature option \<Rightarrow> message" where
  "retry_message isDevinTopic pg devinSignature =
     (if isDevinTopic
      then WaitForTopicReady (p_title pg) devinSignature CONTENT_READY_TIMEOUT CONTENT_READY_MIN_TEXT
      else WaitForContentReady (Some (p_url pg)) CONTENT_READY_TIMEOUT CONTENT_READY_MIN_TEXT)"

definition convert_page ::
  "page_env \<Rightarrow> page \<Rightarrow> bool \<Rightarrow> signature option \<Rightarrow> readiness option \<Rightarrow> batch \<Rightarrow> outcome \<times> batch" where
  "convert_page env pg isDevinTopic devinSignature rd s =
     (let s1 = await AwaitConvert (e_cancel env) (tab_send ConvertToMarkdown s) in
      case e_convert env of
        Inl err \<Rightarrow> (Threw err, s1)
      | Inr None \<Rightarrow> (Threw ''Conversion failed'', s1)
      | Inr (Some convertResponse) \<Rightarrow>
          if \<not> success convertResponse
          then (Threw (if falsy (cr_error convertResponse) then ''Conversion failed''
                       else str (cr_error convertResponse)), s1)
          else if isMarkdownSuspiciouslyEmpty (markdown convertResponse) rd
          then
            (let s2 = await AwaitSleep900 (e_cancel env) s1;
                 s3 = await AwaitRetryReady (e_cancel env)
                        (tab_send (retry_message isDevinTopic pg devinSignature) s2)
             in case (if isDevinTopic then e_retryReady env
                      else (case e_retryReady env of Inl err \<Rightarrow> Inr None | Inr r \<Rightarrow> Inr r)) of
                  Inl err \<Rightarrow> (Threw err, s3)
                | Inr retryReadiness \<Rightarrow>
                    (let s4 = await AwaitRetryConvert (e_cancel env) (tab_send ConvertToMarkdown s3)
                     in case e_retryConvert env of
                          Inl err \<Rightarrow> (Threw err, s4)
                        | Inr None \<Rightarrow> (Threw ''Conversion retry failed'', s4)
                        | Inr (Some retryResponse) \<Rightarrow>
                            if success retryResponse
                            then
                              if isMarkdownSuspiciouslyEmpty (markdown retryResponse)
                                   (case retryReadiness of None \<Rightarrow> rd | Some r \<Rightarrow> Some r)
                              then (Threw ''Converted markdown appears empty after retry.'', s4)
                              else record_page env pg retryResponse s4
                            else (Threw (if falsy (cr_error retryResponse)
                                         then ''Conversion retry failed''
                                         else str (cr_error retryResponse)), s4)))
          else record_page env pg convertResponse s1)"

text \<open>
  \<open>processSinglePage\<close> up to the conversion, for a topic page (\<open>devinIndex\<close> is an
  integer): navigate to the base page when needed, take the content signature, select the
  topic, wait for it. The result is the outcome of a page that ends here (\<open>Inl\<close>), or the
  topic signature, the readiness and the state with which the conversion starts.
\<close>

definition topic_page ::
  "page_env \<Rightarrow> page \<Rightarrow> int \<Rightarrow> bool \<Rightarrow> batch
     \<Rightarrow> (outcome \<times> batch) + (signature option \<times> readiness option \<times> batch)" where
  "topic_page env pg idx samePage s =
     (let s1 = (if samePage then s else await AwaitNavigate (e_cancel env) s) in
      case (if samePage then None else e_navigate env) of
        Some err \<Rightarrow> Inl (Threw err, s1)
      | None \<Rightarrow>
          (let s2 = await AwaitSignature (e_cancel env) (tab_send GetContentSignature s1) in
           case e_signature env of
             Inl err \<Rightarrow> Inl (Threw err, s2)
           | Inr devinSignature \<Rightarrow>
               (let s3 = await AwaitSelect (e_cancel env)
                           (tab_send (SelectDevinTopic idx (p_title pg)) s2) in
                case e_selection env of
                  Inl err \<Rightarrow> Inl (Threw err, s3)
                | Inr None \<Rightarrow> Inl (Threw ''Failed to select Devin topic.'', s3)
                | Inr (Some selection) \<Rightarrow>
                    if \<not> sel_success selection
                    then Inl (Threw (if falsy (sel_error selection)
                                     then ''Failed to select Devin topic.''
                                     else str (sel_error selection)), s3)
                    else
                      (let s4 = await AwaitSleep350 (e_cancel env) s3;
                           s5 = await AwaitTopicReady (e_cancel env)
                                  (tab_send (WaitForTopicReady (p_title pg) devinSignature
                                     CONTENT_READY_TIMEOUT CONTENT_READY_MIN_TEXT) s4)
                       in case e_topicReady env of
                            Inl err \<Rightarrow> Inl (Threw err, s5)
                          | Inr topicReady \<Rightarrow> Inr (devinSignature, topicReady, s5)))))"

text \<open>
  The same for any other page: a change of hash inside the document, no navigation at
  all, or a full navigation followed by the readiness probe.
\<close>

definition plain_page ::
  "page_env \<Rightarrow> page \<Rightarrow> bool \<Rightarrow> string \<Rightarrow> string \<Rightarrow> batch
     \<Rightarrow> (outcome \<times> batch) + (signature option \<times> readiness option \<times> batch)" where
  "plain_page env pg samePage targetHash currentHash s =
     (let (thrown, s1) =
        (if samePage then
           (if targetHash \<noteq> [] \<and> targetHash \<noteq> currentHash then
              (let s0 = await AwaitScript (e_cancel env) s in
               case e_script env of
                 None \<Rightarrow> (None, await AwaitSleep500 (e_cancel env) s0)
               | Some err \<Rightarrow> (None, s0))
            else (None, await AwaitSleep100 (e_cancel env) s))
         else (e_navigate env, await AwaitNavigate (e_cancel env) s))
      in case thrown of
           Some err \<Rightarrow> Inl (Threw err, s1)
         | None \<Rightarrow>
             if cancelRequested (batchState s1) then Inl (Returned, s1)
             else
               (let (rd, s2) =
                  (if \<not> samePage
                   then waitForPageContent AwaitContent (e_content env) (p_url pg) (e_cancel env) s1
                   else (None, s1))
                in Inr (None, rd, s2)))"

text \<open>
  \<open>processSinglePage(page)\<close> up to the conversion: the first check of the flag, the
  report, the tab's address, and the navigation of the page's kind.
\<close>

definition prepare_page ::
  "url_parser \<Rightarrow> page_env \<Rightarrow> page \<Rightarrow> batch
     \<Rightarrow> (outcome \<times> batch) + (bool \<times> signature option \<times> readiness option \<times> batch)" where
  "prepare_page URL env pg s =
     (if cancelRequested (batchState s) then Inl (Returned, s)
      else
        let b = batchState s;
            currentStep = processed b + failed b + 1;
            s1 = broadcastBatchUpdate ''processing''
                   (''Processing '' @ show_nat currentStep @ ''/'' @ show_nat (total b) @ '': ''
                      @ p_title pg)
                   ''info'' None (s\<lparr>batchState := b\<lparr>currentTitle := p_title pg\<rparr>\<rparr>);
            s2 = await AwaitTab (e_cancel env) s1
        in case e_tab env of
             Inl err \<Rightarrow> Inl (Threw err, s2)
           | Inr tabUrl \<Rightarrow>
               (case URL (case tabUrl of None \<Rightarrow> ''undefined'' | Some u \<Rightarrow> u) of
                  None \<Rightarrow>
                    (let s3 = await AwaitNavigate (e_cancel env) s2 in
                     case e_navigate env of
                       Some err \<Rightarrow> Inl (Threw err, s3)
                     | None \<Rightarrow> Inl (Returned, s3))
                | Some cur \<Rightarrow>
                    (case URL (p_url pg) of
                       None \<Rightarrow>
                         (let s3 = await AwaitNavigate (e_cancel env) s2 in
                          case e_navigate env of
                            Some err \<Rightarrow> Inl (Threw err, s3)
                          | None \<Rightarrow> Inl (Returned, s3))
                     | Some tgt \<Rightarrow>
                         (let samePage =
                                (origin cur = origin tgt \<and>
                                 strip_slash (pathname cur) = strip_slash (pathname tgt))
                          in case devinIndex pg of
                               Some idx \<Rightarrow>
                                 (case topic_page env pg idx samePage s2 of
                                    Inl r \<Rightarrow> Inl r
                                  | Inr (sg, rd, s5) \<Rightarrow> Inr (True, sg, rd, s5))
                             | None \<Rightarrow>
                                 (case plain_page env pg samePage (hash tgt) (hash cur) s2 of
                                    Inl r \<Rightarrow> Inl r
                                  | Inr (sg, rd, s5) \<Rightarrow> Inr (False, sg, rd, s5))))))"

text \<open>
  \<open>processSinglePage(page)\<close>: the flag is checked once more before the conversion.
\<close>

definition processSinglePage :: "url_parser \<Rightarrow> page_env \<Rightarrow> page \<Rightarrow> batch \<Rightarrow> outcome \<times> batch" where
  "processSinglePage URL env pg s =
     (case prepare_page URL env pg s of
        Inl r \<Rightarrow> r
      | Inr (isDevinTopic, devinSignature, rd, s5) \<Rightarrow>
          if cancelRequested (batchState s5) then (Returned, s5)
          else convert_page env pg isDevinTopic devinSignature rd s5)"

text \<open>
  The loop of \<open>runBatchProcessing\<close> over the pages: the flag is checked before each page,
  and a page that throws is counted as failed and reported.
\<close>

definition page_failed :: "page \<Rightarrow> string \<Rightarrow> batch \<Rightarrow> batch" where
  "page_failed pg err s =
     (let b = batchState s
      in broadcastBatchUpdate ''pageFailed''
           (''Failed '' @ p_title pg @ '': '' @ (if err = [] then ''Error'' else err))
           ''error'' None (s\<lparr>batchState := b\<lparr>failed := failed b + 1\<rparr>\<rparr>))"

fun run_pages :: "url_parser \<Rightarrow> (nat \<Rightarrow> page_env) \<Rightarrow> nat \<Rightarrow> page list \<Rightarrow> batch \<Rightarrow> batch" where
  "run_pages URL envs i [] s = s"
| "run_pages URL envs i (pg # rest) s =
     (if cancelRequested (batchState s) then s
      else case processSinglePage URL (envs i) pg s of
             (Returned, s1) \<Rightarrow> run_pages URL envs (Suc i) rest s1
           | (Threw err, s1) \<Rightarrow> run_pages URL envs (Suc i) rest (page_failed pg err s1))"



text \<open>The run's part of the \<open>tabs.onRemoved\<close> handler.\<close>

definition batch_tabRemoved :: "nat \<Rightarrow> batch \<Rightarrow> batch" where
  "batch_tabRemoved t s =
     (if isRunning (batchState s) \<and> bs_tabId (batchState s) = Some t
      then resetBatchState
             (broadcastBatchUpdate ''error'' ''Batch cancelled because the tab was closed.''
                ''error'' (Some False)
                (s\<lparr>batchState := (batchState s)\<lparr>isRunning := False, cancelRequested := True\<rparr>\<rparr>))
      else s)"

section \<open>Starting and cancelling a run\<close>

text \<open>\<open>split('/')\<close>, \<open>filter(Boolean)\<close>, \<open>join('/')\<close> and \<open>toLowerCase\<close> on ASCII letters.\<close>

fun split_slash :: "string \<Rightarrow> string list" where
  "split_slash [] = [[]]"
| "split_slash (c # cs) =
     (if c = CHR ''/'' then [] # split_slash cs
      else case split_slash cs of
             [] \<Rightarrow> [[c]]
           | x # xs \<Rightarrow> (c # x) # xs)"

definition path_segments :: "string \<Rightarrow> string list" where
  "path_segments path = filter (\<lambda>seg. seg \<noteq> []) (split_slash path)"

fun join_slash :: "string list \<Rightarrow> string" where
  "join_slash [] = []"
| "join_slash [x] = x"
| "join_slash (x # y # r) = x @ ''/'' @ join_slash (y # r)"

definition toLowerCase :: "string \<Rightarrow> string" where
  "toLowerCase x =
     map (\<lambda>c. if 65 \<le> (of_char c :: nat) \<and> (of_char c :: nat) \<le> 90
              then char_of ((of_char c :: nat) + 32) else c) x"

fun findIndex :: "('a \<Rightarrow> bool) \<Rightarrow> 'a list \<Rightarrow> nat option" where
  "findIndex P [] = None"
| "findIndex P (x # xs) =
     (if P x then Some 0 else case findIndex P xs of None \<Rightarrow> None | Some k \<Rightarrow> Some (Suc k))"

text \<open>\<open>getProjectPrefix(urlString)\<close>; \<open>None\<close> is \<open>null\<close>.\<close>

definition getProjectPrefix :: "url_parser \<Rightarrow> string \<Rightarrow> string option" where
  "getProjectPrefix URL urlString =
     (case URL urlString of
        None \<Rightarrow> None
      | Some u \<Rightarrow>
          (let pathSegments = path_segments (pathname u);
               isDevinAi = str_includes (hostname u) ''devin.ai''
           in case findIndex (\<lambda>seg. toLowerCase seg \<in> {''deepwiki'', ''wiki'', ''docs''})
                     pathSegments of
                Some markerIdx \<Rightarrow>
                  (let segmentsAfterMarker = int (length pathSegments) - (int markerIdx + 1) in
                   if isDevinAi then
                     (if segmentsAfterMarker \<ge> 1
                      then Some (''/'' @ join_slash (take (markerIdx + 2) pathSegments))
                      else Some (''/'' @ join_slash (take (markerIdx + 1) pathSegments)))
                   else if segmentsAfterMarker \<ge> 2
                     then Some (''/'' @ join_slash (take (markerIdx + 3) pathSegments))
                   else Some (''/'' @ join_slash (take (markerIdx + 2) pathSegments)))
              | None \<Rightarrow>
                  if length pathSegments \<ge> 2 then Some (''/'' @ join_slash (take 2 pathSegments))
                  else if length pathSegments = 1 then Some (''/'' @ hd pathSegments)
                  else Some ''/''))"

text \<open>
  \<open>filterPagesToProject(pages, currentUrl)\<close>. \<open>URLb\<close> is the constructor with a base,
  \<open>new URL(url, base)\<close>.
\<close>

definition filterPagesToProject ::
  "url_parser \<Rightarrow> (string \<Rightarrow> string \<Rightarrow> url option) \<Rightarrow> page list \<Rightarrow> string \<Rightarrow> page list" where
  "filterPagesToProject URL URLb extracted currentAddress =
     (case URL currentAddress of
        None \<Rightarrow> extracted
      | Some base \<Rightarrow>
          (let isDevinAi = str_includes (hostname base) ''devin.ai'';
               currentPathNormalized = strip_slash (pathname base);
               prefix = getProjectPrefix URL currentAddress
           in filter (\<lambda>pg.
                 case URLb (p_url pg) (origin base) of
                   None \<Rightarrow> False
                 | Some pageUrl \<Rightarrow>
                     if origin pageUrl \<noteq> origin base then False
                     else if isDevinAi
                       then strip_slash (pathname pageUrl) = currentPathNormalized
                     else if falsy prefix then True
                     else startsWith (pathname pageUrl) (str prefix))
               extracted))"

text \<open>The answer of the tab to \<open>extractAllPages\<close>, and what \<open>startBatchProcessing\<close> awaits.\<close>

record extraction_response =
  ex_success :: bool
  ex_error :: "string option"
  ex_pages :: "page list option"
  ex_headTitle :: "string option"
  ex_currentTitle :: "string option"

record start_env =
  se_tab :: "string + string option"
  se_extraction :: "string + extraction_response option"

definition sanitizeFolderName :: "string \<Rightarrow> string" where
  "sanitizeFolderName v = sanitizeName v ''deepwiki''"

text \<open>
  \<open>startBatchProcessing(tabId)\<close>, up to the call of \<open>runBatchProcessing()\<close>, which it does
  not await: the result is the error thrown (\<open>Inl\<close>) or \<open>total\<close> and \<open>folderName\<close>.
\<close>

definition startBatchProcessing ::
  "url_parser \<Rightarrow> (string \<Rightarrow> string \<Rightarrow> url option) \<Rightarrow> start_env \<Rightarrow> nat \<Rightarrow> batch
     \<Rightarrow> (string + nat \<times> string) \<times> batch" where
  "startBatchProcessing URL URLb env t s =
     (if isRunning (batchState s) then (Inl ''Batch conversion already running.'', s)
      else case se_tab env of
        Inl err \<Rightarrow> (Inl err, s)
      | Inr tabUrl \<Rightarrow>
          if \<not> isValidUrl tabUrl
          then (Inl ''Please open a DeepWiki or Devin page before starting batch conversion.'', s)
          else
            (let s1 = tab_send ExtractAllPages s in
             case se_extraction env of
               Inl err \<Rightarrow> (Inl err, s1)
             | Inr None \<Rightarrow> (Inl ''Failed to extract sidebar links.'', s1)
             | Inr (Some extraction) \<Rightarrow>
                 if \<not> ex_success extraction
                 then (Inl (if falsy (ex_error extraction) then ''Failed to extract sidebar links.''
                            else str (ex_error extraction)), s1)
                 else
                   (let extractedPages = (case ex_pages extraction of None \<Rightarrow> [] | Some ps \<Rightarrow> ps);
                        kept = filterPagesToProject URL URLb extractedPages (str tabUrl)
                    in if kept = []
                       then (Inl ''No child pages were detected for the current project.'', s1)
                       else
                         (let b = \<lparr>isRunning = True, bs_tabId = Some t, originalUrl = tabUrl,
                                   pages = kept, convertedPages = [],
                                   folderName = sanitizeFolderName
                                     (if \<not> falsy (ex_headTitle extraction)
                                        then str (ex_headTitle extraction)
                                      else if \<not> falsy (ex_currentTitle extraction)
                                        then str (ex_currentTitle extraction)
                                      else ''deepwiki''),
                                   processed = 0, failed = 0, cancelRequested = False,
                                   total = length kept, currentTitle = [], fileNames = []\<rparr>;
                              s2 = broadcastBatchUpdate ''started''
                                     (''Found '' @ show_nat (total b)
                                        @ '' pages. Starting batch conversion...'')
                                     ''info'' None (s1\<lparr>batchState := b\<rparr>)
                          in (Inr (total b, folderName b), s2)))))"

text \<open>
  The \<open>startBatch\<close> branch of the message listener: a request without a numeric \<open>tabId\<close>
  is answered with an error, any other starts \<open>startBatchProcessing\<close> and is answered
  with its result or with the message of its error.
\<close>

definition onStartBatch ::
  "url_parser \<Rightarrow> (string \<Rightarrow> string \<Rightarrow> url option) \<Rightarrow> start_env \<Rightarrow> nat option \<Rightarrow> batch
     \<Rightarrow> (string + nat \<times> string) \<times> batch" where
  "onStartBatch URL URLb env requestTabId s =
     (case requestTabId of
        None \<Rightarrow> (Inl ''Missing tabId for batch start.'', s)
      | Some t \<Rightarrow> startBatchProcessing URL URLb env t s)"

text \<open>The number of \<open>convertToMarkdown\<close> requests sent to the tab so far.\<close>

definition convert_count :: "batch \<Rightarrow> nat" where
  "convert_count s = count_list (tab_log s) ConvertToMarkdown"

text \<open>
  A later state of a run under the cancel messages \<open>c\<close>: the run is as running as before,
  a flag that was set is still set, and if a cancel message arrived at one of the awaits
  performed in between while the run was running, the flag is set.
\<close>

definition follows :: "(await_point \<Rightarrow> bool) \<Rightarrow> batch \<Rightarrow> batch \<Rightarrow> bool" where
  "follows c s s' =
     (isRunning (batchState s') = isRunning (batchState s) \<and>
      (cancelRequested (batchState s) \<longrightarrow> cancelRequested (batchState s')) \<and>
      (\<exists>new. awaited s' = awaited s @ new \<and>
         ((\<exists>pt \<in> set new. c pt) \<and> isRunning (batchState s)
            \<longrightarrow> cancelRequested (batchState s'))))"

text \<open>
  After a suspiciously empty first output, the retry is good when its readiness probe
  does not throw and the second conversion succeeds with an output that is not
  suspiciously empty.
\<close>

definition retry_good :: "page_env \<Rightarrow> bool \<Rightarrow> readiness option \<Rightarrow> bool" where
  "retry_good env isDevinTopic rd =
     (case (if isDevinTopic then e_retryReady env
            else (case e_retryReady env of Inl err \<Rightarrow> Inr None | Inr r \<Rightarrow> Inr r)) of
        Inl err \<Rightarrow> False
      | Inr retryReadiness \<Rightarrow>
          (case e_retryConvert env of
             Inr (Some r2) \<Rightarrow>
               success r2 \<and>
               \<not> isMarkdownSuspiciouslyEmpty (markdown r2)
                   (case retryReadiness of None \<Rightarrow> rd | Some r \<Rightarrow> Some r)
           | _ \<Rightarrow> False))"

text \<open>
  A later state in which nothing has been converted, recorded or counted since.
\<close>

definition unconverted :: "batch \<Rightarrow> batch \<Rightarrow> bool" where
  "unconverted s s' =
     (convert_count s' = convert_count s \<and>
      convertedPages (batchState s') = convertedPages (batchState s) \<and>
      processed (batchState s') = processed (batchState s) \<and>
      failed (batchState s') = failed (batchState s))"

text \<open>
  A concrete run: the tab shows the documentation of a project with two pages;
  the constructor with a base resolves a path against the origin.
\<close>

definition simple_URL_base :: "string \<Rightarrow> string \<Rightarrow> url option" where
  "simple_URL_base u base =
     (case simple_URL u of Some x \<Rightarrow> Some x | None \<Rightarrow> simple_URL (base @ u))"

definition page_setup :: page where
  "page_setup = \<lparr>p_url = ''https://deepwiki.com/acme/docs/setup'', p_title = ''Setup'',
                  devinIndex = None, numberPrefix = None\<rparr>"

definition page_usage :: page where
  "page_usage = \<lparr>p_url = ''https://deepwiki.com/acme/docs/usage'', p_title = ''Usage'',
                  devinIndex = None, numberPrefix = None\<rparr>"

definition docs_start :: start_env where
  "docs_start =
     \<lparr>se_tab = Inr (Some ''https://deepwiki.com/acme/docs''),
      se_extraction = Inr (Some \<lparr>ex_success = True, ex_error = None,
                                 ex_pages = Some [page_setup, page_usage],
                                 ex_headTitle = Some ''Acme Docs'', ex_currentTitle = None\<rparr>)\<rparr>"

definition running_state :: batch where
  "running_state = snd (startBatchProcessing simple_URL simple_URL_base docs_start 7 idle)"

text \<open>
  A page that looks substantial to the probe and converts to an empty text, twice; and a
  page that converts well, during whose conversion a cancel message arrives.
\<close>

definition rich_readiness :: readiness where
  "rich_readiness =
     \<lparr>ready = True, timedOut = False, urlOk = True,
      r_metrics = Some \<lparr>hasContainer = True, textLength = 500, meaningfulCount = 2,
                        hasMermaid = False\<rparr>\<rparr>"

definition empty_env :: page_env where
  "empty_env =
     \<lparr>e_tab = Inr (Some ''https://deepwiki.com/acme/docs''), e_navigate = None,
      e_signature = Inr None, e_selection = Inr None, e_topicReady = Inr None,
      e_script = None, e_content = Inr (Some rich_readiness),
      e_convert = Inr (Some \<lparr>success = True, markdown = Some [],
                              markdownTitle = Some ''Setup'', cr_error = None\<rparr>),
      e_retryReady = Inr (Some rich_readiness),
      e_retryConvert = Inr (Some \<lparr>success = True, markdown = Some [],
                                   markdownTitle = Some ''Setup'', cr_error = None\<rparr>),
      e_cancel = (\<lambda>pt. False)\<rparr>"


section \<open>Theorems\<close>

text \<open>
  C6. Converted output is classified suspiciously empty exactly when its trimmed length is
  below 80 and either no readiness metrics are available and the trimmed length is below
  20, or the metrics show a text length of at least 160, at least 6 meaningful elements,
  or a diagram. An output whose trimmed length is at least 80 is never classified
  suspiciously empty, whatever the metrics.
\<close>

theorem suspiciously_empty_iff:
  "isMarkdownSuspiciouslyEmpty md rd =
     (trimmed_length md < 80 \<and>
       ((metrics_of rd = None \<and> trimmed_length md < 20) \<or>
        (\<exists>m. metrics_of rd = Some m \<and>
           (textLength m \<ge> 160 \<or> meaningfulCount m \<ge> 6 \<or> hasMermaid m))))
   \<and> \<not> (trimmed_length md \<ge> 80 \<and> isMarkdownSuspiciouslyEmpty md rd)"
  by (auto simp: isMarkdownSuspiciouslyEmpty_def trimmed_length_def Let_def
        CONTENT_READY_MIN_TEXT_def split: option.splits)

subsection \<open>Addresses\<close>

lemma simple_URL_docs_intro:
  "simple_URL ''https://deepwiki.com/acme/docs#intro'' =
     Some \<lparr>origin = ''https://deepwiki.com'', pathname = ''/acme/docs'', hash = ''#intro'',
           hostname = ''deepwiki.com''\<rparr>"
  by (simp add: simple_URL_def Let_def)

lemma simple_URL_docs:
  "simple_URL ''https://deepwiki.com/acme/docs'' =
     Some \<lparr>origin = ''https://deepwiki.com'', pathname = ''/acme/docs'', hash = [],
           hostname = ''deepwiki.com''\<rparr>"
  by (simp add: simple_URL_def Let_def)

lemma simple_URL_docs_sub:
  "simple_URL ''https://deepwiki.com/acme/docs/setup'' =
     Some \<lparr>origin = ''https://deepwiki.com'', pathname = ''/acme/docs/setup'', hash = [],
           hostname = ''deepwiki.com''\<rparr>"
  by (simp add: simple_URL_def Let_def)

lemma simple_URL_unparsable: "simple_URL ''not a url'' = None"
  by (simp add: simple_URL_def Let_def)

text \<open>
  C9, as stated, fails on the copy with the hash check: two addresses of one origin whose
  paths are equal are refused when the expected address has a fragment that the actual
  one lacks. The copy in \<open>src/background.js\<close> accepts the same pair.
\<close>

theorem hash_mismatch_counterexample:
  "simple_URL ''https://deepwiki.com/acme/docs#intro'' =
     Some \<lparr>origin = ''https://deepwiki.com'', pathname = ''/acme/docs'', hash = ''#intro'',
           hostname = ''deepwiki.com''\<rparr>
   \<and> simple_URL ''https://deepwiki.com/acme/docs'' =
     Some \<lparr>origin = ''https://deepwiki.com'', pathname = ''/acme/docs'', hash = [],
           hostname = ''deepwiki.com''\<rparr>
   \<and> startsWith ''/acme/docs'' ''/acme/docs''
   \<and> \<not> urlsRoughlyMatch simple_URL (Some ''https://deepwiki.com/acme/docs#intro'')
          (Some ''https://deepwiki.com/acme/docs'')
   \<and> bg_urlsRoughlyMatch simple_URL (Some ''https://deepwiki.com/acme/docs#intro'')
          (Some ''https://deepwiki.com/acme/docs'')"
  by (simp add: simple_URL_docs_intro simple_URL_docs urlsRoughlyMatch_def
        bg_urlsRoughlyMatch_def falsy_def str_def)

text \<open>
  C9, amended. For two non-empty addresses that parse, the comparison with the hash check
  holds exactly when the origins are equal, the expected address has no fragment or the
  same fragment as the actual one, and one path starts with the other; the comparison of
  \<open>src/background.js\<close> holds exactly when the origins are equal and one path starts with
  the other.
\<close>

theorem urlsRoughlyMatch_parsed:
  assumes "e \<noteq> []" and "a \<noteq> []" and "URL e = Some expected" and "URL a = Some actual"
  shows "urlsRoughlyMatch URL (Some e) (Some a) =
           (origin expected = origin actual \<and>
            (hash expected = [] \<or> hash expected = hash actual) \<and>
            (startsWith (pathname actual) (pathname expected) \<or>
             startsWith (pathname expected) (pathname actual)))
         \<and> bg_urlsRoughlyMatch URL (Some e) (Some a) =
           (origin expected = origin actual \<and>
            (startsWith (pathname actual) (pathname expected) \<or>
             startsWith (pathname expected) (pathname actual)))"
  using assms by (auto simp: urlsRoughlyMatch_def bg_urlsRoughlyMatch_def falsy_def str_def)

theorem urlsRoughlyMatch_parsed_witness:
  "simple_URL ''https://deepwiki.com/acme/docs'' =
     Some \<lparr>origin = ''https://deepwiki.com'', pathname = ''/acme/docs'', hash = [],
           hostname = ''deepwiki.com''\<rparr>
   \<and> simple_URL ''https://deepwiki.com/acme/docs/setup'' =
     Some \<lparr>origin = ''https://deepwiki.com'', pathname = ''/acme/docs/setup'', hash = [],
           hostname = ''deepwiki.com''\<rparr>
   \<and> urlsRoughlyMatch simple_URL (Some ''https://deepwiki.com/acme/docs'')
        (Some ''https://deepwiki.com/acme/docs/setup'')
   \<and> bg_urlsRoughlyMatch simple_URL (Some ''https://deepwiki.com/acme/docs'')
        (Some ''https://deepwiki.com/acme/docs/setup'')"
  using urlsRoughlyMatch_parsed [where URL = simple_URL
      and e = "''https://deepwiki.com/acme/docs''" and a = "''https://deepwiki.com/acme/docs/setup''",
      OF _ _ simple_URL_docs simple_URL_docs_sub]
  by (simp add: simple_URL_docs simple_URL_docs_sub)

text \<open>
  C10. The loose comparison is true whenever one of its arguments is missing, empty or
  does not parse. So for a destination that is empty or does not parse, the poll of the
  tab's address resolves at the first answer that carries a tab, whatever its address,
  and the navigation-completed listener resolves the wait at the first event of the tab's
  top frame.
\<close>

theorem unparsable_destination_confirms:
  assumes "falsy e \<or> URL (str e) = None"
  shows "urlsRoughlyMatch URL e a \<and> urlsRoughlyMatch URL a e
       \<and> bg_urlsRoughlyMatch URL e a \<and> bg_urlsRoughlyMatch URL a e
       \<and> waitForTabUrl URL e timeoutMs start (\<lparr>poll_now = t, poll_tab = Inr a\<rparr> # rest)
           = Some (Resolved ())
       \<and> nav_promise (waitForNavigation_step URL tabId e
            (OnCompleted \<lparr>d_tabId = tabId, d_frameId = 0, d_url = a, d_error = err\<rparr>) nav_start)
           = Some (Resolved ())"
proof -
  have m: "urlsRoughlyMatch URL e x" for x
    using assms by (auto simp: urlsRoughlyMatch_def split: option.splits)
  have m': "urlsRoughlyMatch URL x e" for x
    using assms by (auto simp: urlsRoughlyMatch_def split: option.splits)
  have b: "bg_urlsRoughlyMatch URL e x" for x
    using assms by (auto simp: bg_urlsRoughlyMatch_def split: option.splits)
  have b': "bg_urlsRoughlyMatch URL x e" for x
    using assms by (auto simp: bg_urlsRoughlyMatch_def split: option.splits)
  have w: "waitForTabUrl URL e timeoutMs start (\<lparr>poll_now = t, poll_tab = Inr a\<rparr> # rest)
           = Some (Resolved ())"
    by (simp add: waitForTabUrl_def m)
  have n: "nav_promise (waitForNavigation_step URL tabId e
            (OnCompleted \<lparr>d_tabId = tabId, d_frameId = 0, d_url = a, d_error = err\<rparr>) nav_start)
           = Some (Resolved ())"
    by (simp add: m nav_start_def nav_settle_def cleanup_def)
  show ?thesis using m m' b b' w n by simp
qed

theorem unparsable_destination_confirms_witness:
  "simple_URL (str (Some ''not a url'')) = None
   \<and> urlsRoughlyMatch simple_URL (Some ''not a url'') (Some ''https://deepwiki.com/acme/docs'')
   \<and> waitForTabUrl simple_URL (Some ''not a url'') 30000 0
        [\<lparr>poll_now = 1, poll_tab = Inr (Some ''https://deepwiki.com/acme/docs'')\<rparr>]
        = Some (Resolved ())
   \<and> nav_promise (waitForNavigation_step simple_URL 7 (Some ''not a url'')
        (OnCompleted \<lparr>d_tabId = 7, d_frameId = 0,
            d_url = Some ''https://deepwiki.com/acme/docs'', d_error = None\<rparr>) nav_start)
        = Some (Resolved ())"
proof -
  have h: "falsy (Some ''not a url'') \<or> simple_URL (str (Some ''not a url'')) = None"
    by (simp add: str_def simple_URL_unparsable)
  show ?thesis
    using unparsable_destination_confirms [where URL = simple_URL and e = "Some ''not a url''"
        and a = "Some ''https://deepwiki.com/acme/docs''" and timeoutMs = 30000 and start = 0
        and t = 1 and rest = "[]" and tabId = 7 and err = None, OF h]
    by (simp add: str_def simple_URL_unparsable)
qed

subsection \<open>The readiness probe\<close>








subsection \<open>The delivery queue\<close>

declare flush_loop.simps [simp del]

lemma flush_loop_result:
  "messageQueue s T = Some e \<Longrightarrow>
   flush_loop T s =
     s\<lparr>messageQueue := (messageQueue s)(T \<mapsto> e\<lparr>queue := []\<rparr>),
       wire := wire s @ map (flight T) (queue e),
       sent := sent s @ map (logged T) (queue e)\<rparr>"
proof (induction "queue e" arbitrary: s e)
  case Nil
  then have "(messageQueue s)(T \<mapsto> e\<lparr>queue := []\<rparr>) = messageQueue s"
    by (auto simp: fun_eq_iff)
  with Nil show ?case
    by (subst flush_loop.simps) simp
next
  case (Cons item rest)
  let ?s = "dispatchMessageToTab T item
              (s\<lparr>messageQueue := (messageQueue s)(T \<mapsto> e\<lparr>queue := rest\<rparr>)\<rparr>)"
  have q: "queue e = item # rest" using Cons.hyps(2) by simp
  have m: "messageQueue ?s T = Some (e\<lparr>queue := rest\<rparr>)"
    by (simp add: dispatchMessageToTab_def tabs_sendMessage_def)
  have "flush_loop T s = flush_loop T ?s"
    using Cons.prems q by (subst flush_loop.simps) simp
  also have "\<dots> = ?s\<lparr>messageQueue := (messageQueue ?s)(T \<mapsto> e\<lparr>queue := rest\<rparr>\<lparr>queue := []\<rparr>),
       wire := wire ?s @ map (flight T) (queue (e\<lparr>queue := rest\<rparr>)),
       sent := sent ?s @ map (logged T) (queue (e\<lparr>queue := rest\<rparr>))\<rparr>"
    by (rule Cons.hyps(1) [OF _ m]) simp
  also have "\<dots> = s\<lparr>messageQueue := (messageQueue s)(T \<mapsto> e\<lparr>queue := []\<rparr>),
       wire := wire s @ map (flight T) (queue e),
       sent := sent s @ map (logged T) (queue e)\<rparr>"
    by (simp add: q dispatchMessageToTab_def tabs_sendMessage_def flight_def logged_def)
  finally show ?case .
qed

lemma flushMessageQueue_result:
  "messageQueue s T = Some e \<Longrightarrow>
   flushMessageQueue T s =
     s\<lparr>messageQueue := (messageQueue s)(T \<mapsto> e\<lparr>isReady := True, queue := []\<rparr>),
       wire := wire s @ map (flight T) (queue e),
       sent := sent s @ map (logged T) (queue e)\<rparr>"
  by (simp add: flushMessageQueue_def flush_loop_result)

lemma flushMessageQueue_none:
  "messageQueue s T = None \<Longrightarrow> flushMessageQueue T s = s"
  by (simp add: flushMessageQueue_def)

lemma entry_updates:
  "(e :: tab_entry)\<lparr>isReady := r, queue := q\<rparr> = \<lparr>isReady = r, queue = q, lastUrl = lastUrl e\<rparr>"
  "(e :: tab_entry)\<lparr>lastUrl := u, isReady := r, queue := q\<rparr> = \<lparr>isReady = r, queue = q, lastUrl = u\<rparr>"
  by (cases e, simp)+

lemma contentScriptReady_result:
  "contentScriptReady T u s =
     (case messageQueue s T of
        None \<Rightarrow> s\<lparr>messageQueue := (messageQueue s)
                      (T \<mapsto> \<lparr>isReady = True, queue = [], lastUrl = u\<rparr>)\<rparr>
      | Some e \<Rightarrow>
          s\<lparr>messageQueue := (messageQueue s)
               (T \<mapsto> \<lparr>isReady = True, queue = [],
                        lastUrl = (if falsy u then lastUrl e else u)\<rparr>),
            wire := wire s @ map (flight T) (queue e),
            sent := sent s @ map (logged T) (queue e)\<rparr>)"
  by (cases "messageQueue s T")
     (simp_all add: contentScriptReady_def flushMessageQueue_result entry_updates)

lemma markTabPending_fields [simp]:
  "promises (markTabPending T s) = promises s"
  "timers (markTabPending T s) = timers s"
  "clock (markTabPending T s) = clock s"
  "wire (markTabPending T s) = wire s"
  "sent (markTabPending T s) = sent s"
  "next_promise (markTabPending T s) = next_promise s"
  by (simp_all add: markTabPending_def split: option.splits)

lemma tabs_sendMessage_fields [simp]:
  "promises (tabs_sendMessage T m cb p s) = promises s"
  "timers (tabs_sendMessage T m cb p s) = timers s"
  "clock (tabs_sendMessage T m cb p s) = clock s"
  "messageQueue (tabs_sendMessage T m cb p s) = messageQueue s"
  "next_promise (tabs_sendMessage T m cb p s) = next_promise s"
  by (simp_all add: tabs_sendMessage_def)

lemma queueMessageForTab_fields [simp]:
  "promises (queueMessageForTab T m p s) = promises s"
  "timers (queueMessageForTab T m p s)
     = timers s @ [(clock s + MESSAGE_TIMEOUT, \<lparr>q_message = m, q_promise = p\<rparr>)]"
  "clock (queueMessageForTab T m p s) = clock s"
  "wire (queueMessageForTab T m p s) = wire s"
  "sent (queueMessageForTab T m p s) = sent s"
  "next_promise (queueMessageForTab T m p s) = next_promise s"
  by (simp_all add: queueMessageForTab_def Let_def)

lemma contentScriptReady_fields [simp]:
  "promises (contentScriptReady T u s) = promises s"
  "timers (contentScriptReady T u s) = timers s"
  "clock (contentScriptReady T u s) = clock s"
  "next_promise (contentScriptReady T u s) = next_promise s"
  by (simp_all add: contentScriptReady_result split: option.splits)

lemma onUpdated_fields [simp]:
  "promises (onUpdated URL T ci u s) = promises s"
  "timers (onUpdated URL T ci u s) = timers s"
  "clock (onUpdated URL T ci u s) = clock s"
  "next_promise (onUpdated URL T ci u s) = next_promise s"
  by (simp_all add: onUpdated_def Let_def split: option.splits)

lemma onActivated_fields [simp]:
  "promises (onActivated T tab s) = promises s"
  "timers (onActivated T tab s) = timers s"
  "clock (onActivated T tab s) = clock s"
  "next_promise (onActivated T tab s) = next_promise s"
  by (simp_all add: onActivated_def split: option.splits)

lemma settle_fields [simp]:
  "timers (settle p out s) = timers s"
  "clock (settle p out s) = clock s"
  "messageQueue (settle p out s) = messageQueue s"
  "wire (settle p out s) = wire s"
  "sent (settle p out s) = sent s"
  "next_promise (settle p out s) = next_promise s"
  by (simp_all add: settle_def split: option.splits)

lemma settle_promises:
  "promises (settle p out s) q =
     (if q = p \<and> promises s p = None then Some out else promises s q)"
  by (simp add: settle_def split: option.splits)

lemma settle_settles: "promises (settle p out s) p \<noteq> None"
  by (simp add: settle_promises)

lemma settle_stable:
  "promises s q = Some x \<Longrightarrow> promises (settle p out s) q = Some x"
  by (auto simp: settle_promises)

lemma item_reject_fields [simp]:
  "clock (item_reject item err s) = clock s"
  "messageQueue (item_reject item err s) = messageQueue s"
  "wire (item_reject item err s) = wire s"
  "sent (item_reject item err s) = sent s"
  "next_promise (item_reject item err s) = next_promise s"
  "timers (item_reject item err s) = filter (\<lambda>(due, it). it \<noteq> item) (timers s)"
  by (simp_all add: item_reject_def clearTimeout_def)

lemma item_resolve_fields [simp]:
  "clock (item_resolve item r s) = clock s"
  "messageQueue (item_resolve item r s) = messageQueue s"
  "wire (item_resolve item r s) = wire s"
  "sent (item_resolve item r s) = sent s"
  "next_promise (item_resolve item r s) = next_promise s"
  "timers (item_resolve item r s) = filter (\<lambda>(due, it). it \<noteq> item) (timers s)"
  by (simp_all add: item_resolve_def clearTimeout_def)

lemma item_reject_promises:
  "promises (item_reject item err s) q =
     (if q = q_promise item \<and> promises s q = None then Some (Rejected err) else promises s q)"
  by (auto simp: item_reject_def clearTimeout_def settle_promises)

lemma item_resolve_promises:
  "promises (item_resolve item r s) q =
     (if q = q_promise item \<and> promises s q = None then Some (Resolved r) else promises s q)"
  by (auto simp: item_resolve_def clearTimeout_def settle_promises)

text \<open>A settled promise keeps its outcome.\<close>

lemma fold_item_reject_stable:
  "promises s q = Some x \<Longrightarrow> promises (fold (\<lambda>item. item_reject item err) items s) q = Some x"
  by (induction items arbitrary: s) (simp_all add: item_reject_promises)

lemma fire_stable: "promises s q = Some x \<Longrightarrow> promises (fire t s) q = Some x"
  by (simp add: fire_def item_reject_promises)

lemma fold_fire_stable: "promises s q = Some x \<Longrightarrow> promises (fold fire ts s) q = Some x"
  by (induction ts arbitrary: s) (simp_all add: fire_stable)

lemma run_callback_stable:
  "promises s q = Some x \<Longrightarrow> promises (run_callback f answer s) q = Some x"
  by (auto simp: run_callback_def item_reject_promises item_resolve_promises settle_promises
        split: callback.splits sum.splits)

lemma step_stable:
  assumes "promises s q = Some x"
  shows "promises (step URL ev s) q = Some x"
proof (cases ev)
  case (Send T m)
  with assms show ?thesis
    by (simp add: sendMessageToTab_def Let_def attemptDirectMessage_def split: option.splits)
next
  case (Answer k answer)
  with assms show ?thesis by (simp add: run_callback_stable)
next
  case (Removed T)
  with assms show ?thesis
    by (simp add: tabRemoved_def fold_item_reject_stable split: option.splits)
next
  case (Elapse d)
  with assms show ?thesis by (simp add: elapse_def Let_def fold_fire_stable)
qed (use assms in simp_all)

lemma run_stable:
  "promises s q = Some x \<Longrightarrow> promises (run URL evs s) q = Some x"
  unfolding run_def by (induction evs arbitrary: s) (simp_all add: step_stable)

text \<open>The timer of a buffered item settles its promise by the deadline.\<close>

lemma sot_item_reject:
  "settled_or_timed item d s \<Longrightarrow> settled_or_timed item d (item_reject it err s)"
  by (auto simp: settled_or_timed_def item_reject_promises)

lemma sot_item_resolve:
  "settled_or_timed item d s \<Longrightarrow> settled_or_timed item d (item_resolve it r s)"
  by (auto simp: settled_or_timed_def item_resolve_promises)

lemma sot_settle:
  "settled_or_timed item d s \<Longrightarrow> settled_or_timed item d (settle p out s)"
  by (auto simp: settled_or_timed_def settle_promises)

lemma sot_queue_other:
  "settled_or_timed item d s \<Longrightarrow> settled_or_timed item d (queueMessageForTab T m p s)"
  by (auto simp: settled_or_timed_def)

lemma sot_fold_item_reject:
  "settled_or_timed item d s \<Longrightarrow>
   settled_or_timed item d (fold (\<lambda>it. item_reject it err) items s)"
  by (induction items arbitrary: s) (simp_all add: sot_item_reject)

lemma fire_fields [simp]:
  "clock (fire t s) = clock s"
  by (simp add: fire_def)

lemma fold_fire_clock [simp]: "clock (fold fire ts s) = clock s"
  by (induction ts arbitrary: s) simp_all

lemma fire_keeps:
  assumes "promises s (q_promise item) \<noteq> None \<or> (d, item) \<in> set (timers s)"
  shows "promises (fire t s) (q_promise item) \<noteq> None \<or> (d, item) \<in> set (timers (fire t s))"
proof (cases "t \<in> set (timers s)")
  case False
  with assms show ?thesis by (simp add: fire_def)
next
  case True
  show ?thesis
  proof (cases "snd t = item")
    case True
    with \<open>t \<in> set (timers s)\<close> show ?thesis
      by (simp add: fire_def item_reject_promises)
  next
    case False
    then have "t \<noteq> (d, item)" by auto
    with assms False True show ?thesis
      by (auto simp: fire_def item_reject_promises)
  qed
qed

lemma fire_settles:
  assumes "promises s (q_promise item) \<noteq> None \<or> (d, item) \<in> set (timers s)"
  shows "promises (fire (d, item) s) (q_promise item) \<noteq> None"
  using assms by (auto simp: fire_def item_reject_promises)

lemma fold_fire_keeps:
  "promises s (q_promise item) \<noteq> None \<or> (d, item) \<in> set (timers s) \<Longrightarrow>
   promises (fold fire ts s) (q_promise item) \<noteq> None \<or> (d, item) \<in> set (timers (fold fire ts s))"
proof (induction ts arbitrary: s)
  case Nil
  then show ?case by simp
next
  case (Cons t ts)
  show ?case
    using Cons.IH [OF fire_keeps [OF Cons.prems, of t]] by simp
qed

lemma fold_fire_unsettles_not:
  "promises s q \<noteq> None \<Longrightarrow> promises (fold fire ts s) q \<noteq> None"
  using fold_fire_stable by fastforce

lemma fold_fire_settles:
  "promises s (q_promise item) \<noteq> None \<or> (d, item) \<in> set (timers s) \<Longrightarrow>
   (d, item) \<in> set ts \<Longrightarrow>
   promises (fold fire ts s) (q_promise item) \<noteq> None"
proof (induction ts arbitrary: s)
  case Nil
  then show ?case by simp
next
  case (Cons t ts)
  show ?case
  proof (cases "t = (d, item)")
    case True
    from fire_settles [OF Cons.prems(1)] show ?thesis
      by (simp add: True fold_fire_unsettles_not)
  next
    case False
    with Cons.prems(2) have "(d, item) \<in> set ts" by simp
    from Cons.IH [OF fire_keeps [OF Cons.prems(1)] this] show ?thesis by simp
  qed
qed

lemma sot_elapse:
  assumes "settled_or_timed item d s"
  shows "settled_or_timed item d (elapse n s)"
proof -
  let ?s1 = "s\<lparr>clock := clock s + int n\<rparr>"
  let ?due = "filter (\<lambda>(due, it). due \<le> clock ?s1) (timers ?s1)"
  have e: "elapse n s = fold fire ?due ?s1" by (simp add: elapse_def Let_def)
  from assms have k: "promises ?s1 (q_promise item) \<noteq> None \<or> (d, item) \<in> set (timers ?s1)"
    by (auto simp: settled_or_timed_def)
  show ?thesis
  proof (cases "d \<le> clock ?s1")
    case True
    show ?thesis
    proof (cases "promises s (q_promise item) = None")
      case True
      with assms have "(d, item) \<in> set (timers s)" by (simp add: settled_or_timed_def)
      with \<open>d \<le> clock ?s1\<close> have "(d, item) \<in> set ?due" by simp
      from fold_fire_settles [OF k this] show ?thesis
        by (simp add: e settled_or_timed_def)
    next
      case False
      then have "promises ?s1 (q_promise item) \<noteq> None" by simp
      from fold_fire_unsettles_not [OF this] show ?thesis
        by (simp add: e settled_or_timed_def)
    qed
  next
    case False
    from fold_fire_keeps [OF k, of ?due] False show ?thesis
      by (auto simp: e settled_or_timed_def)
  qed
qed

lemma sot_step:
  assumes "settled_or_timed item d s"
  shows "settled_or_timed item d (step URL ev s)"
proof (cases ev)
  case (Send T m)
  with assms show ?thesis
    by (auto simp: sendMessageToTab_def Let_def attemptDirectMessage_def settled_or_timed_def
          split: option.splits)
next
  case (Answer k answer)
  have "settled_or_timed item d (s\<lparr>wire := w\<rparr>)" for w
    using assms by (simp add: settled_or_timed_def)
  then have "settled_or_timed item d (run_callback f answer (s\<lparr>wire := w\<rparr>))" for f w
    by (auto simp: run_callback_def sot_item_reject sot_item_resolve sot_settle sot_queue_other
          split: callback.splits sum.splits)
  with assms Answer show ?thesis by simp
next
  case (Removed T)
  show ?thesis
  proof (cases "messageQueue s T")
    case None
    with assms Removed show ?thesis by (simp add: tabRemoved_def)
  next
    case (Some e)
    from sot_fold_item_reject [OF assms, of "''Tab closed.''" "queue e"]
    show ?thesis
      using Removed Some by (simp add: tabRemoved_def settled_or_timed_def)
  qed
next
  case (Elapse n)
  with assms show ?thesis by (simp add: sot_elapse)
qed (use assms in \<open>simp_all add: settled_or_timed_def\<close>)

lemma sot_run:
  "settled_or_timed item d s \<Longrightarrow> settled_or_timed item d (run URL evs s)"
  unfolding run_def by (induction evs arbitrary: s) (simp_all add: sot_step)

lemma sot_queued:
  "settled_or_timed \<lparr>q_message = m, q_promise = p\<rparr> (clock s + MESSAGE_TIMEOUT)
     (queueMessageForTab T m p s)"
  by (simp add: settled_or_timed_def MESSAGE_TIMEOUT_def)

lemma settled_by_deadline:
  assumes "clock s + MESSAGE_TIMEOUT \<le> clock (run URL evs (queueMessageForTab T m p s))"
  shows "promises (run URL evs (queueMessageForTab T m p s)) p \<noteq> None"
  using sot_run [OF sot_queued [where m = m and p = p and s = s and T = T],
      where URL = URL and evs = evs] assms
  by (simp add: settled_or_timed_def)

lemma fire_timers:
  "timers (fire t s) =
     (if t \<in> set (timers s) then filter (\<lambda>(due, it). it \<noteq> snd t) (remove1 t (timers s))
      else timers s)"
  by (simp add: fire_def)

lemma fire_other:
  assumes "q_promise (snd t) \<noteq> p"
  shows "promises (fire t s) p = promises s p"
    and "q_promise (snd t0) = p \<Longrightarrow> (t0 \<in> set (timers (fire t s))) = (t0 \<in> set (timers s))"
proof -
  show "promises (fire t s) p = promises s p"
    using assms by (simp add: fire_def item_reject_promises)
  assume t0: "q_promise (snd t0) = p"
  with assms have "t0 \<noteq> t" and "snd t0 \<noteq> snd t" by auto
  then show "(t0 \<in> set (timers (fire t s))) = (t0 \<in> set (timers s))"
    by (auto simp: fire_timers)
qed

lemma fold_fire_other:
  "\<forall>t \<in> set ts. q_promise (snd t) \<noteq> p \<Longrightarrow>
   promises (fold fire ts s) p = promises s p \<and>
   (\<forall>t0. q_promise (snd t0) = p \<longrightarrow>
      (t0 \<in> set (timers (fold fire ts s))) = (t0 \<in> set (timers s)))"
proof (induction ts arbitrary: s)
  case Nil
  then show ?case by simp
next
  case (Cons t ts)
  then have t: "q_promise (snd t) \<noteq> p" and ts: "\<forall>t \<in> set ts. q_promise (snd t) \<noteq> p"
    by simp_all
  from Cons.IH [OF ts, of "fire t s"] fire_other [OF t, where s = s]
  show ?case by simp
qed

lemma timeout_rejects:
  assumes "promises s p = None"
    and "\<forall>t \<in> set (timers s). q_promise (snd t) \<noteq> p"
    and "MESSAGE_TIMEOUT \<le> int n"
  shows "promises (elapse n (queueMessageForTab T m p s)) p = Some (Rejected (timeout_error m))"
proof -
  let ?item = "\<lparr>q_message = m, q_promise = p\<rparr>"
  let ?t0 = "(clock s + MESSAGE_TIMEOUT, ?item)"
  let ?s1 = "(queueMessageForTab T m p s)\<lparr>clock := clock s + int n\<rparr>"
  let ?due = "filter (\<lambda>(due, it). due \<le> clock s + int n) (timers s)"
  have e: "elapse n (queueMessageForTab T m p s) = fire ?t0 (fold fire ?due ?s1)"
    using assms(3) by (simp add: elapse_def Let_def)
  have o: "\<forall>t \<in> set ?due. q_promise (snd t) \<noteq> p" using assms(2) by simp
  from fold_fire_other [OF o, of ?s1]
  have p0: "promises (fold fire ?due ?s1) p = None"
    and t0: "?t0 \<in> set (timers (fold fire ?due ?s1))"
    using assms(1) by simp_all
  show ?thesis
    unfolding e using p0 t0 by (simp add: fire_def item_reject_promises)
qed

text \<open>Sends to a pending tab are queued in the order they are made.\<close>

lemma send_pending:
  assumes "messageQueue s T = Some e" and "\<not> isReady e"
  shows "step URL (Send T m) s =
           s\<lparr>next_promise := Suc (next_promise s),
             timers := timers s @ [(clock s + MESSAGE_TIMEOUT,
                                    \<lparr>q_message = m, q_promise = next_promise s\<rparr>)],
             messageQueue := (messageQueue s)
               (T \<mapsto> e\<lparr>queue := queue e @ [\<lparr>q_message = m, q_promise = next_promise s\<rparr>]\<rparr>)\<rparr>"
  using assms by (simp add: sendMessageToTab_def Let_def queueMessageForTab_def)

lemma new_items_Cons:
  "new_items n (m # ms) = \<lparr>q_message = m, q_promise = n\<rparr> # new_items (Suc n) ms"
  by (simp add: new_items_def)

lemma sends_pending:
  "messageQueue s T = Some e \<Longrightarrow> \<not> isReady e \<Longrightarrow>
   run URL (map (Send T) ms) s =
     s\<lparr>next_promise := next_promise s + length ms,
       timers := timers s @ map (\<lambda>it. (clock s + MESSAGE_TIMEOUT, it)) (new_items (next_promise s) ms),
       messageQueue := (messageQueue s)
         (T \<mapsto> e\<lparr>queue := queue e @ new_items (next_promise s) ms\<rparr>)\<rparr>"
proof (induction ms arbitrary: s e)
  case Nil
  then have "(messageQueue s)(T \<mapsto> e) = messageQueue s" by (auto simp: fun_eq_iff)
  then show ?case by (simp add: run_def new_items_def)
next
  case (Cons m ms)
  let ?item = "\<lparr>q_message = m, q_promise = next_promise s\<rparr>"
  let ?e = "e\<lparr>queue := queue e @ [?item]\<rparr>"
  let ?s = "step URL (Send T m) s"
  have st: "?s = s\<lparr>next_promise := Suc (next_promise s),
             timers := timers s @ [(clock s + MESSAGE_TIMEOUT, ?item)],
             messageQueue := (messageQueue s)(T \<mapsto> ?e)\<rparr>"
    by (rule send_pending [OF Cons.prems])
  have m: "messageQueue ?s T = Some ?e"
    by (subst st) simp
  have r: "\<not> isReady ?e"
    using Cons.prems(2) by simp
  have "run URL (map (Send T) (m # ms)) s = run URL (map (Send T) ms) ?s"
    by (simp add: run_def)
  also have "\<dots> = ?s\<lparr>next_promise := next_promise ?s + length ms,
       timers := timers ?s @
         map (\<lambda>it. (clock ?s + MESSAGE_TIMEOUT, it)) (new_items (next_promise ?s) ms),
       messageQueue := (messageQueue ?s)
         (T \<mapsto> ?e\<lparr>queue := queue ?e @ new_items (next_promise ?s) ms\<rparr>)\<rparr>"
    by (rule Cons.IH [OF m r])
  also have "\<dots> = s\<lparr>next_promise := next_promise s + length (m # ms),
       timers := timers s @
         map (\<lambda>it. (clock s + MESSAGE_TIMEOUT, it)) (new_items (next_promise s) (m # ms)),
       messageQueue := (messageQueue s)
         (T \<mapsto> e\<lparr>queue := queue e @ new_items (next_promise s) (m # ms)\<rparr>)\<rparr>"
    unfolding st by (simp add: new_items_Cons)
  finally show ?case .
qed

lemma sends_pending_timed:
  assumes "messageQueue s T = Some e" and "\<not> isReady e"
    and "it \<in> set (new_items (next_promise s) ms)"
  shows "settled_or_timed it (clock s + MESSAGE_TIMEOUT) (run URL (map (Send T) ms) s)"
  unfolding sends_pending [OF assms(1,2)] using assms(3)
  by (simp add: settled_or_timed_def MESSAGE_TIMEOUT_def)

lemma new_items_props:
  "map q_message (new_items n ms) = ms"
  "map q_promise (new_items n ms) = [n ..< n + length ms]"
  by (simp_all add: new_items_def map_fst_enumerate map_snd_enumerate comp_def case_prod_unfold)

lemma run_append: "run URL (evs @ evs') s = run URL evs' (run URL evs s)"
  by (simp add: run_def)

lemma callback_settles:
  "promises (run_callback (flight T it) answer st) (q_promise it) \<noteq> None"
  by (simp add: run_callback_def flight_def item_reject_promises item_resolve_promises
        split: sum.splits)

text \<open>
  C3. Payloads sent to a target while it is marked pending are all buffered and nothing is
  sent; when the target announces its content script, the buffered payloads are
  dispatched in the order they were submitted, after those already waiting, each once,
  and the buffer is left empty. The promise of each of these sends is settled by the call
  back of its dispatch, is settled at the latest when its 30 s have passed whatever
  happens in between, and once settled keeps its outcome.
\<close>

theorem pending_sends_flush_in_order:
  assumes "messageQueue s T = Some e" and "\<not> isReady e"
  shows "sent (run URL (map (Send T) ms) s) = sent s
       \<and> sent (run URL (map (Send T) ms @ [Ready T u]) s)
           = sent s @ map (logged T) (queue e @ new_items (next_promise s) ms)
       \<and> wire (run URL (map (Send T) ms @ [Ready T u]) s)
           = wire s @ map (flight T) (queue e @ new_items (next_promise s) ms)
       \<and> messageQueue (run URL (map (Send T) ms @ [Ready T u]) s) T
           = Some \<lparr>isReady = True, queue = [], lastUrl = (if falsy u then lastUrl e else u)\<rparr>
       \<and> map q_message (new_items (next_promise s) ms) = ms
       \<and> distinct (map q_promise (new_items (next_promise s) ms))
       \<and> (\<forall>it \<in> set (new_items (next_promise s) ms).
            (\<forall>answer st. promises (run_callback (flight T it) answer st) (q_promise it) \<noteq> None)
            \<and> (\<forall>evs. clock s + MESSAGE_TIMEOUT \<le> clock (run URL (map (Send T) ms @ evs) s) \<longrightarrow>
                  promises (run URL (map (Send T) ms @ evs) s) (q_promise it) \<noteq> None))
       \<and> (\<forall>p out evs st. promises (st :: 'r background) p = Some out \<longrightarrow>
             promises (run URL evs st) p = Some out)"
proof -
  let ?s1 = "run URL (map (Send T) ms) s"
  let ?items = "new_items (next_promise s) ms"
  note s1 = sends_pending [OF assms, of URL ms]
  have a: "sent ?s1 = sent s" unfolding s1 by simp
  have m1: "messageQueue ?s1 T = Some (e\<lparr>queue := queue e @ ?items\<rparr>)"
    unfolding s1 by simp
  have r: "run URL (map (Send T) ms @ [Ready T u]) s = contentScriptReady T u ?s1"
    by (simp add: run_def)
  have b: "sent (run URL (map (Send T) ms @ [Ready T u]) s)
           = sent s @ map (logged T) (queue e @ ?items)"
    unfolding r contentScriptReady_result using m1 a by simp
  have w1: "wire ?s1 = wire s" unfolding s1 by simp
  have c: "wire (run URL (map (Send T) ms @ [Ready T u]) s)
           = wire s @ map (flight T) (queue e @ ?items)"
    unfolding r contentScriptReady_result using m1 w1 by simp
  have d: "messageQueue (run URL (map (Send T) ms @ [Ready T u]) s) T
           = Some \<lparr>isReady = True, queue = [], lastUrl = (if falsy u then lastUrl e else u)\<rparr>"
    unfolding r contentScriptReady_result using m1 by simp
  have f: "distinct (map q_promise ?items)"
    by (simp add: new_items_props)
  have g: "promises (run URL (map (Send T) ms @ evs) s) (q_promise it) \<noteq> None"
    if "it \<in> set ?items"
      and "clock s + MESSAGE_TIMEOUT \<le> clock (run URL (map (Send T) ms @ evs) s)" for it evs
    using sot_run [OF sends_pending_timed [OF assms that(1), where URL = URL],
        where URL = URL and evs = evs] that(2)
    by (simp add: run_append settled_or_timed_def)
  show ?thesis
    using a b c d f g callback_settles run_stable
    by (simp add: new_items_props) blast
qed

lemma pending_state_entry:
  "messageQueue pending_state 7 = Some \<lparr>isReady = False, queue = [], lastUrl = None\<rparr>"
  by (simp add: pending_state_def init_def markTabPending_def)

lemma pending_state_fields:
  "sent pending_state = []" "wire pending_state = []" "timers pending_state = []"
  "next_promise pending_state = 0" "clock pending_state = 0"
  "promises pending_state = (\<lambda>p. None)"
  by (simp_all add: pending_state_def init_def)

theorem pending_sends_flush_in_order_witness:
  "messageQueue pending_state 7 = Some \<lparr>isReady = False, queue = [], lastUrl = None\<rparr>
   \<and> sent (run simple_URL [Send 7 ExtractAllPages, Send 7 ConvertToMarkdown] pending_state) = []
   \<and> sent (run simple_URL [Send 7 ExtractAllPages, Send 7 ConvertToMarkdown, Ready 7 None]
              pending_state)
       = [(7, ExtractAllPages, Some 0), (7, ConvertToMarkdown, Some 1)]
   \<and> messageQueue (run simple_URL [Send 7 ExtractAllPages, Send 7 ConvertToMarkdown, Ready 7 None]
              pending_state) 7
       = Some \<lparr>isReady = True, queue = [], lastUrl = None\<rparr>"
proof -
  have h: "\<not> isReady \<lparr>isReady = False, queue = [], lastUrl = None\<rparr>" by simp
  show ?thesis
    using pending_sends_flush_in_order [OF pending_state_entry h,
        where URL = simple_URL and ms = "[ExtractAllPages, ConvertToMarkdown]" and u = None]
    by (auto simp: pending_state_entry pending_state_fields new_items_def logged_def falsy_def)
qed

text \<open>
  C2, as stated, fails: the timer rejects the promise of a buffered item but leaves the
  item in the buffer, and the next flush dispatches the payload to the tab.
\<close>

theorem timed_out_item_dispatched_counterexample:
  "promises (run simple_URL [Send 7 ConvertToMarkdown, Elapse 30000] pending_state) 0
     = Some (Rejected ''Timed out waiting for response for convertToMarkdown'')
   \<and> messageQueue (run simple_URL [Send 7 ConvertToMarkdown, Elapse 30000] pending_state) 7
     = Some \<lparr>isReady = False, queue = [\<lparr>q_message = ConvertToMarkdown, q_promise = 0\<rparr>],
              lastUrl = None\<rparr>
   \<and> sent (run simple_URL [Send 7 ConvertToMarkdown, Elapse 30000] pending_state) = []
   \<and> sent (run simple_URL [Send 7 ConvertToMarkdown, Elapse 30000, Ready 7 None] pending_state)
     = [(7, ConvertToMarkdown, Some 0)]"
  by (simp add: run_def pending_state_def init_def markTabPending_def sendMessageToTab_def
        queueMessageForTab_def Let_def elapse_def fire_def item_reject_def clearTimeout_def
        settle_def MESSAGE_TIMEOUT_def timeout_error_def contentScriptReady_result
        flight_def logged_def falsy_def)

text \<open>
  C2, amended. Every buffered item starts a timer that is due 30 seconds after the item
  was buffered. Whatever happens in between, the promise of the item is settled once
  these 30 seconds have passed; when nothing settles it earlier, the timer rejects it
  with the error \<open>Timed out waiting for response for\<close> followed by the action of the
  payload.
\<close>

theorem buffered_item_deadline:
  "timers (queueMessageForTab T m p s)
     = timers s @ [(clock s + 30000, \<lparr>q_message = m, q_promise = p\<rparr>)]
   \<and> (clock s + 30000 \<le> clock (run URL evs (queueMessageForTab T m p s)) \<longrightarrow>
        promises (run URL evs (queueMessageForTab T m p s)) p \<noteq> None)
   \<and> (promises s p = None \<and> (\<forall>t \<in> set (timers s). q_promise (snd t) \<noteq> p) \<and> 30000 \<le> n \<longrightarrow>
        promises (elapse n (queueMessageForTab T m p s)) p
          = Some (Rejected (''Timed out waiting for response for '' @ action m)))"
  using settled_by_deadline [of s URL evs T m p] timeout_rejects [of s p n T m]
  by (simp add: MESSAGE_TIMEOUT_def timeout_error_def)

theorem buffered_item_deadline_witness:
  "promises pending_state 0 = None
   \<and> timers (queueMessageForTab 7 ConvertToMarkdown 0 pending_state)
       = [(30000, \<lparr>q_message = ConvertToMarkdown, q_promise = 0\<rparr>)]
   \<and> clock (run simple_URL [Elapse 30000]
        (queueMessageForTab 7 ConvertToMarkdown 0 pending_state)) = 30000
   \<and> promises (run simple_URL [Elapse 30000]
        (queueMessageForTab 7 ConvertToMarkdown 0 pending_state)) 0 \<noteq> None
   \<and> promises (elapse 30000 (queueMessageForTab 7 ConvertToMarkdown 0 pending_state)) 0
       = Some (Rejected ''Timed out waiting for response for convertToMarkdown'')"
proof -
  note t = buffered_item_deadline [where s = pending_state and T = 7 and m = ConvertToMarkdown
      and p = 0 and URL = simple_URL and evs = "[Elapse 30000]" and n = 30000]
  have c: "clock (run simple_URL [Elapse 30000]
        (queueMessageForTab 7 ConvertToMarkdown 0 pending_state)) = 30000"
    by (simp add: run_def elapse_def Let_def pending_state_fields)
  show ?thesis using t c by (simp add: pending_state_fields)
qed




subsection \<open>The batch run\<close>

lemma broadcast_fields [simp]:
  "batchState (broadcastBatchUpdate ty msg level ov s) = batchState s"
  "tab_log (broadcastBatchUpdate ty msg level ov s) = tab_log s"
  "awaited (broadcastBatchUpdate ty msg level ov s) = awaited s"
  "convert_count (broadcastBatchUpdate ty msg level ov s) = convert_count s"
  by (simp_all add: broadcastBatchUpdate_def Let_def convert_count_def)

lemma cancel_fields [simp]:
  "tab_log (snd (cancelBatchProcessing s)) = tab_log s"
  "awaited (snd (cancelBatchProcessing s)) = awaited s"
  "convert_count (snd (cancelBatchProcessing s)) = convert_count s"
  "isRunning (batchState (snd (cancelBatchProcessing s))) = isRunning (batchState s)"
  "convertedPages (batchState (snd (cancelBatchProcessing s))) = convertedPages (batchState s)"
  "processed (batchState (snd (cancelBatchProcessing s))) = processed (batchState s)"
  "failed (batchState (snd (cancelBatchProcessing s))) = failed (batchState s)"
  "total (batchState (snd (cancelBatchProcessing s))) = total (batchState s)"
  "cancelRequested (batchState (snd (cancelBatchProcessing s)))
     = (cancelRequested (batchState s) \<or> isRunning (batchState s))"
  by (simp_all add: cancelBatchProcessing_def Let_def convert_count_def)

lemma await_fields [simp]:
  "tab_log (await pt c s) = tab_log s"
  "awaited (await pt c s) = awaited s @ [pt]"
  "convert_count (await pt c s) = convert_count s"
  "isRunning (batchState (await pt c s)) = isRunning (batchState s)"
  "convertedPages (batchState (await pt c s)) = convertedPages (batchState s)"
  "processed (batchState (await pt c s)) = processed (batchState s)"
  "failed (batchState (await pt c s)) = failed (batchState s)"
  "total (batchState (await pt c s)) = total (batchState s)"
  "cancelRequested (batchState (await pt c s))
     = (cancelRequested (batchState s) \<or> (c pt \<and> isRunning (batchState s)))"
  by (simp_all add: await_def Let_def convert_count_def)

lemma tab_send_fields [simp]:
  "batchState (tab_send m s) = batchState s"
  "awaited (tab_send m s) = awaited s"
  "convert_count (tab_send m s) = convert_count s + (if m = ConvertToMarkdown then 1 else 0)"
  by (simp_all add: tab_send_def convert_count_def)

lemma update_fields [simp]:
  "convert_count (s\<lparr>batchState := b\<rparr>) = convert_count s"
  by (simp add: convert_count_def)

lemma getUniqueFileName_fields [simp]:
  "tab_log (snd (getUniqueFileName d s)) = tab_log s"
  "awaited (snd (getUniqueFileName d s)) = awaited s"
  "convert_count (snd (getUniqueFileName d s)) = convert_count s"
  "isRunning (batchState (snd (getUniqueFileName d s))) = isRunning (batchState s)"
  "convertedPages (batchState (snd (getUniqueFileName d s))) = convertedPages (batchState s)"
  "processed (batchState (snd (getUniqueFileName d s))) = processed (batchState s)"
  "failed (batchState (snd (getUniqueFileName d s))) = failed (batchState s)"
  "cancelRequested (batchState (snd (getUniqueFileName d s))) = cancelRequested (batchState s)"
  by (simp_all add: getUniqueFileName_def Let_def convert_count_def)

text \<open>The relation \<open>follows\<close> is closed under the steps of a page.\<close>

lemma follows_refl [simp]: "follows c s s"
  by (simp add: follows_def)

lemma follows_await [intro!]: "follows c s x \<Longrightarrow> follows c s (await pt c x)"
  by (auto simp: follows_def)

lemma follows_tab_send [intro!]: "follows c s x \<Longrightarrow> follows c s (tab_send m x)"
  by (auto simp: follows_def)

lemma follows_broadcast [intro!]:
  "follows c s x \<Longrightarrow> follows c s (broadcastBatchUpdate ty msg level ov x)"
  by (auto simp: follows_def)

lemma follows_title [intro!]:
  "follows c s x \<Longrightarrow> follows c s (x\<lparr>batchState := (batchState x)\<lparr>currentTitle := t\<rparr>\<rparr>)"
  by (auto simp: follows_def)

lemma follows_trans: "follows c s x \<Longrightarrow> follows c x y \<Longrightarrow> follows c s y"
  by (fastforce simp: follows_def)



lemma follows_record_page [intro!]:
  "follows (e_cancel env) s x \<Longrightarrow> follows (e_cancel env) s (snd (record_page env pg r x))"
  by (auto simp: follows_def record_page_def Let_def split_def)

lemma follows_convert_page [intro!]:
  "follows (e_cancel env) s x \<Longrightarrow>
   follows (e_cancel env) s (snd (convert_page env pg t sg rd x))"
  by (auto simp: convert_page_def Let_def split: sum.splits option.splits)

lemma waitForPageContent_simps [simp]:
  "snd (waitForPageContent pt answer u c x)
     = await pt c (tab_send (WaitForContentReady (Some u) CONTENT_READY_TIMEOUT
                              CONTENT_READY_MIN_TEXT) x)"
  "fst (waitForPageContent pt answer u c x)
     = (case answer of Inl err \<Rightarrow> None | Inr response \<Rightarrow> response)"
  by (simp_all add: waitForPageContent_def Let_def)

lemma waitForPageContent_eq [simp]:
  "(waitForPageContent pt answer u c x = (r, b))
     = (r = (case answer of Inl err \<Rightarrow> None | Inr response \<Rightarrow> response) \<and>
        b = await pt c (tab_send (WaitForContentReady (Some u) CONTENT_READY_TIMEOUT
                                   CONTENT_READY_MIN_TEXT) x))"
  by (auto simp: waitForPageContent_def Let_def)



lemma prepare_page_unfold:
  "prepare_page URL env pg s =
     (if cancelRequested (batchState s) then Inl (Returned, s)
      else
        let s2 = await AwaitTab (e_cancel env)
                   (broadcastBatchUpdate ''processing''
                      (''Processing ''
                         @ show_nat (processed (batchState s) + failed (batchState s) + 1)
                         @ ''/'' @ show_nat (total (batchState s)) @ '': '' @ p_title pg)
                      ''info'' None
                      (s\<lparr>batchState := (batchState s)\<lparr>currentTitle := p_title pg\<rparr>\<rparr>))
        in case e_tab env of
             Inl err \<Rightarrow> Inl (Threw err, s2)
           | Inr tabUrl \<Rightarrow>
               (case URL (case tabUrl of None \<Rightarrow> ''undefined'' | Some u \<Rightarrow> u) of
                  None \<Rightarrow>
                    (case e_navigate env of
                       Some err \<Rightarrow> Inl (Threw err, await AwaitNavigate (e_cancel env) s2)
                     | None \<Rightarrow> Inl (Returned, await AwaitNavigate (e_cancel env) s2))
                | Some cur \<Rightarrow>
                    (case URL (p_url pg) of
                       None \<Rightarrow>
                         (case e_navigate env of
                            Some err \<Rightarrow> Inl (Threw err, await AwaitNavigate (e_cancel env) s2)
                          | None \<Rightarrow> Inl (Returned, await AwaitNavigate (e_cancel env) s2))
                     | Some tgt \<Rightarrow>
                         (case devinIndex pg of
                            Some idx \<Rightarrow>
                              (case topic_page env pg idx
                                      (origin cur = origin tgt \<and>
                                       strip_slash (pathname cur) = strip_slash (pathname tgt)) s2 of
                                 Inl r \<Rightarrow> Inl r
                               | Inr (sg, rd, s5) \<Rightarrow> Inr (True, sg, rd, s5))
                          | None \<Rightarrow>
                              (case plain_page env pg
                                      (origin cur = origin tgt \<and>
                                       strip_slash (pathname cur) = strip_slash (pathname tgt))
                                      (hash tgt) (hash cur) s2 of
                                 Inl r \<Rightarrow> Inl r
                               | Inr (sg, rd, s5) \<Rightarrow> Inr (False, sg, rd, s5))))))"
  unfolding prepare_page_def Let_def by (rule refl)




text \<open>Up to the conversion a page converts, records and counts nothing.\<close>

lemma unconverted_refl [simp]: "unconverted s s"
  by (simp add: unconverted_def)

lemma unconverted_await [intro!]: "unconverted s x \<Longrightarrow> unconverted s (await pt c x)"
  by (simp add: unconverted_def)

lemma unconverted_tab_send [intro!]:
  "unconverted s x \<Longrightarrow> m \<noteq> ConvertToMarkdown \<Longrightarrow> unconverted s (tab_send m x)"
  by (simp add: unconverted_def)

lemma unconverted_broadcast [intro!]:
  "unconverted s x \<Longrightarrow> unconverted s (broadcastBatchUpdate ty msg level ov x)"
  by (simp add: unconverted_def)

lemma unconverted_title [intro!]:
  "unconverted s x \<Longrightarrow> unconverted s (x\<lparr>batchState := (batchState x)\<lparr>currentTitle := t\<rparr>\<rparr>)"
  by (simp add: unconverted_def)

lemma unconverted_topic_page:
  assumes "unconverted s x"
  shows "topic_page env pg idx same x = Inl (out, s') \<Longrightarrow> unconverted s s'"
    and "topic_page env pg idx same x = Inr (sg, rd, s') \<Longrightarrow> unconverted s s'"
  using assms
  by (auto simp: topic_page_def Let_def split: sum.splits option.splits if_splits)

lemma unconverted_plain_page:
  assumes "unconverted s x"
  shows "plain_page env pg same th ch x = Inl (out, s') \<Longrightarrow> unconverted s s'"
    and "plain_page env pg same th ch x = Inr (sg, rd, s') \<Longrightarrow> unconverted s s'"
  using assms
  by (auto simp: plain_page_def Let_def case_prod_unfold split: sum.splits option.splits if_splits)

lemma unconverted_prepare_page:
  shows "prepare_page URL env pg s = Inl (out, s') \<Longrightarrow> unconverted s s'"
    and "prepare_page URL env pg s = Inr (t, sg, rd, s') \<Longrightarrow> unconverted s s'"
proof -
  define s2 where "s2 = await AwaitTab (e_cancel env)
                   (broadcastBatchUpdate ''processing''
                      (''Processing ''
                         @ show_nat (processed (batchState s) + failed (batchState s) + 1)
                         @ ''/'' @ show_nat (total (batchState s)) @ '': '' @ p_title pg)
                      ''info'' None
                      (s\<lparr>batchState := (batchState s)\<lparr>currentTitle := p_title pg\<rparr>\<rparr>))"
  have s2: "unconverted s s2" unfolding s2_def by auto
  then have s3: "unconverted s (await AwaitNavigate (e_cancel env) s2)" by auto
  note tp = unconverted_topic_page [OF s2] unconverted_plain_page [OF s2]
  show "prepare_page URL env pg s = Inl (out, s') \<Longrightarrow> unconverted s s'"
    unfolding prepare_page_unfold s2_def [symmetric] Let_def using s2 s3
    by (auto split: sum.splits option.splits if_splits dest: tp)
  show "prepare_page URL env pg s = Inr (t, sg, rd, s') \<Longrightarrow> unconverted s s'"
    unfolding prepare_page_unfold s2_def [symmetric] Let_def using s2 s3
    by (auto split: sum.splits option.splits if_splits dest: tp)
qed

text \<open>The conversion of a page.\<close>

lemma record_page_result:
  "fst (record_page env pg r s) = Returned"
  "convert_count (snd (record_page env pg r s)) = convert_count s"
  "processed (batchState (snd (record_page env pg r s))) = processed (batchState s) + 1"
  "failed (batchState (snd (record_page env pg r s))) = failed (batchState s)"
  "length (convertedPages (batchState (snd (record_page env pg r s))))
     = length (convertedPages (batchState s)) + 1"
  by (simp_all add: record_page_def Let_def case_prod_unfold)

lemma retry_message_not_convert [simp]: "retry_message t pg sg \<noteq> ConvertToMarkdown"
  by (simp add: retry_message_def)

lemma convert_page_count:
  "convert_count (snd (convert_page env pg t sg rd s)) \<le> convert_count s + 2"
  "convert_count (snd (convert_page env pg t sg rd s)) = convert_count s + 2 \<Longrightarrow>
     \<exists>r. e_convert env = Inr (Some r) \<and> success r \<and> isMarkdownSuspiciouslyEmpty (markdown r) rd"
  by (auto simp: convert_page_def Let_def record_page_result split: sum.splits option.splits if_splits)

lemma convert_page_retry:
  assumes "e_convert env = Inr (Some r1)" and "success r1"
    and "isMarkdownSuspiciouslyEmpty (markdown r1) rd"
  shows "retry_good env t rd \<Longrightarrow>
           fst (convert_page env pg t sg rd s) = Returned \<and>
           convert_count (snd (convert_page env pg t sg rd s)) = convert_count s + 2 \<and>
           processed (batchState (snd (convert_page env pg t sg rd s)))
             = processed (batchState s) + 1"
    and "\<not> retry_good env t rd \<Longrightarrow>
           (\<exists>err. fst (convert_page env pg t sg rd s) = Threw err) \<and>
           convertedPages (batchState (snd (convert_page env pg t sg rd s)))
             = convertedPages (batchState s) \<and>
           processed (batchState (snd (convert_page env pg t sg rd s)))
             = processed (batchState s) \<and>
           failed (batchState (snd (convert_page env pg t sg rd s))) = failed (batchState s)"
  using assms
  by (auto simp: convert_page_def retry_good_def Let_def record_page_result
        split: sum.splits option.splits if_splits)


lemma page_failed_fields [simp]:
  "failed (batchState (page_failed pg err s)) = failed (batchState s) + 1"
  "convertedPages (batchState (page_failed pg err s)) = convertedPages (batchState s)"
  "processed (batchState (page_failed pg err s)) = processed (batchState s)"
  "cancelRequested (batchState (page_failed pg err s)) = cancelRequested (batchState s)"
  "isRunning (batchState (page_failed pg err s)) = isRunning (batchState s)"
  "convert_count (page_failed pg err s) = convert_count s"
  "awaited (page_failed pg err s) = awaited s"
  by (simp_all add: page_failed_def Let_def)

lemma run_pages_single:
  "run_pages URL envs i [pg] s =
     (if cancelRequested (batchState s) then s
      else case processSinglePage URL (envs i) pg s of
             (Returned, s1) \<Rightarrow> s1
           | (Threw err, s1) \<Rightarrow> page_failed pg err s1)"
  by (simp split: prod.splits outcome.splits)

lemma prepare_page_not_cancelled:
  "prepare_page URL env pg s = Inr (t, sg, rd, s5) \<Longrightarrow> \<not> cancelRequested (batchState s)"
  by (auto simp: prepare_page_def split: if_splits)

text \<open>
  C5. While one page is processed, \<open>convertToMarkdown\<close> is sent at most twice. It is sent
  twice only when the page reached the conversion and the first answer was a success
  whose output is suspiciously empty for the readiness the page had. When the first
  output is suspiciously empty and the retry is not good (its probe or its conversion
  fails, or its output is suspiciously empty again), the page throws: nothing is
  recorded, the page is not counted as processed, and the loop counts it as failed.
\<close>

theorem conversion_retry_bound:
  "convert_count (snd (processSinglePage URL env pg s)) \<le> convert_count s + 2
   \<and> (convert_count (snd (processSinglePage URL env pg s)) = convert_count s + 2 \<longrightarrow>
        (\<exists>t sg rd s5 r. prepare_page URL env pg s = Inr (t, sg, rd, s5) \<and>
           e_convert env = Inr (Some r) \<and> success r \<and>
           isMarkdownSuspiciouslyEmpty (markdown r) rd))
   \<and> (prepare_page URL env pg s = Inr (t, sg, rd, s5) \<and> \<not> cancelRequested (batchState s5) \<and>
       e_convert env = Inr (Some r1) \<and> success r1 \<and>
       isMarkdownSuspiciouslyEmpty (markdown r1) rd \<and> \<not> retry_good env t rd \<longrightarrow>
         (\<exists>err. fst (processSinglePage URL env pg s) = Threw err)
         \<and> convertedPages (batchState (snd (processSinglePage URL env pg s)))
             = convertedPages (batchState s)
         \<and> processed (batchState (snd (processSinglePage URL env pg s)))
             = processed (batchState s)
         \<and> failed (batchState (run_pages URL (\<lambda>k. env) i [pg] s)) = failed (batchState s) + 1
         \<and> convertedPages (batchState (run_pages URL (\<lambda>k. env) i [pg] s))
             = convertedPages (batchState s)
         \<and> processed (batchState (run_pages URL (\<lambda>k. env) i [pg] s)) = processed (batchState s))"
proof -
  let ?r = "processSinglePage URL env pg s"
  have ab: "convert_count (snd ?r) \<le> convert_count s + 2 \<and>
       (convert_count (snd ?r) = convert_count s + 2 \<longrightarrow>
        (\<exists>t sg rd s5 r. prepare_page URL env pg s = Inr (t, sg, rd, s5) \<and>
           e_convert env = Inr (Some r) \<and> success r \<and>
           isMarkdownSuspiciouslyEmpty (markdown r) rd))"
  proof (cases "prepare_page URL env pg s")
    case (Inl q)
    then have "unconverted s (snd q)"
      using unconverted_prepare_page(1) [of URL env pg s "fst q" "snd q"] by simp
    with Inl show ?thesis
      by (simp add: processSinglePage_def unconverted_def)
  next
    case (Inr q)
    then obtain t' sg' rd' s5' where q: "prepare_page URL env pg s = Inr (t', sg', rd', s5')"
      by (cases q) auto
    from unconverted_prepare_page(2) [OF q] have u: "convert_count s5' = convert_count s"
      by (simp add: unconverted_def)
    show ?thesis
      using convert_page_count [of env pg t' sg' rd' s5'] q u
      by (auto simp: processSinglePage_def)
  qed
  have c: "(\<exists>err. fst ?r = Threw err)
         \<and> convertedPages (batchState (snd ?r)) = convertedPages (batchState s)
         \<and> processed (batchState (snd ?r)) = processed (batchState s)
         \<and> failed (batchState (run_pages URL (\<lambda>k. env) i [pg] s)) = failed (batchState s) + 1
         \<and> convertedPages (batchState (run_pages URL (\<lambda>k. env) i [pg] s))
             = convertedPages (batchState s)
         \<and> processed (batchState (run_pages URL (\<lambda>k. env) i [pg] s)) = processed (batchState s)"
    if q: "prepare_page URL env pg s = Inr (t, sg, rd, s5)"
      and nc: "\<not> cancelRequested (batchState s5)"
      and f: "e_convert env = Inr (Some r1)" "success r1"
        "isMarkdownSuspiciouslyEmpty (markdown r1) rd"
      and ng: "\<not> retry_good env t rd"
  proof -
    have r: "?r = convert_page env pg t sg rd s5"
      using q nc by (simp add: processSinglePage_def)
    from unconverted_prepare_page(2) [OF q]
    have u: "convertedPages (batchState s5) = convertedPages (batchState s)"
      "processed (batchState s5) = processed (batchState s)"
      "failed (batchState s5) = failed (batchState s)"
      by (simp_all add: unconverted_def)
    from convert_page_retry(2) [OF f ng, of pg sg s5]
    obtain err where e: "fst ?r = Threw err"
      and k: "convertedPages (batchState (snd ?r)) = convertedPages (batchState s)"
        "processed (batchState (snd ?r)) = processed (batchState s)"
        "failed (batchState (snd ?r)) = failed (batchState s)"
      unfolding r u by blast
    have n: "\<not> cancelRequested (batchState s)"
      by (rule prepare_page_not_cancelled [OF q])
    have "run_pages URL (\<lambda>k. env) i [pg] s = page_failed pg err (snd ?r)"
      using e n by (cases ?r) (simp add: run_pages_single)
    with e k show ?thesis by simp
  qed
  show ?thesis using ab c by blast
qed


lemma running_state_running: "isRunning (batchState running_state)"
  by code_simp


theorem conversion_retry_bound_witness:
  "isMarkdownSuspiciouslyEmpty (Some []) (Some rich_readiness)
   \<and> \<not> retry_good empty_env False (Some rich_readiness)
   \<and> convert_count (snd (processSinglePage simple_URL empty_env page_setup running_state))
       = convert_count running_state + 2
   \<and> (\<exists>err. fst (processSinglePage simple_URL empty_env page_setup running_state) = Threw err)
   \<and> failed (batchState (run_pages simple_URL (\<lambda>k. empty_env) 0 [page_setup] running_state))
       = failed (batchState running_state) + 1
   \<and> convertedPages (batchState (run_pages simple_URL (\<lambda>k. empty_env) 0 [page_setup] running_state))
       = convertedPages (batchState running_state)"
proof -
  have "case prepare_page simple_URL empty_env page_setup running_state of
          Inl q \<Rightarrow> False
        | Inr (t, sg, rd, s5) \<Rightarrow>
            \<not> t \<and> sg = None \<and> rd = Some rich_readiness \<and> \<not> cancelRequested (batchState s5)"
    by code_simp
  then obtain s5 where
    q: "prepare_page simple_URL empty_env page_setup running_state
          = Inr (False, None, Some rich_readiness, s5)"
    and nc: "\<not> cancelRequested (batchState s5)"
    by (auto split: sum.splits)
  have c: "e_convert empty_env = Inr (Some \<lparr>success = True, markdown = Some [],
              markdownTitle = Some ''Setup'', cr_error = None\<rparr>)"
    by (simp add: empty_env_def)
  have e: "isMarkdownSuspiciouslyEmpty (Some []) (Some rich_readiness)"
    by code_simp
  have g: "\<not> retry_good empty_env False (Some rich_readiness)"
    by code_simp
  have n: "convert_count (snd (processSinglePage simple_URL empty_env page_setup running_state))
       = convert_count running_state + 2"
    by code_simp
  show ?thesis
    using conversion_retry_bound [where URL = simple_URL and env = empty_env and pg = page_setup
        and s = running_state and t = False and sg = None and rd = "Some rich_readiness"
        and ?s5.0 = s5 and i = 0
        and ?r1.0 = "\<lparr>success = True, markdown = Some [], markdownTitle = Some ''Setup'',
                      cr_error = None\<rparr>"]
      q nc c e g n
    by simp
qed





text \<open>
  C4. While a run is active, \<open>startBatch\<close> fails with an error and leaves the state of
  the background script as it was: the pages, the counts, the outputs, the original
  address and the set of used file names are those of the run in progress. The same
  holds of the listener's branch, whatever \<open>tabId\<close> the request carries.
\<close>

theorem start_rejected_while_running:
  assumes "isRunning (batchState s)"
  shows "fst (startBatchProcessing URL URLb env t s) = Inl ''Batch conversion already running.''
       \<and> snd (startBatchProcessing URL URLb env t s) = s
       \<and> (\<exists>msg. fst (onStartBatch URL URLb env requestTabId s) = Inl msg)
       \<and> snd (onStartBatch URL URLb env requestTabId s) = s
       \<and> pages (batchState (snd (startBatchProcessing URL URLb env t s))) = pages (batchState s)
       \<and> processed (batchState (snd (startBatchProcessing URL URLb env t s)))
           = processed (batchState s)
       \<and> failed (batchState (snd (startBatchProcessing URL URLb env t s))) = failed (batchState s)
       \<and> total (batchState (snd (startBatchProcessing URL URLb env t s))) = total (batchState s)
       \<and> convertedPages (batchState (snd (startBatchProcessing URL URLb env t s)))
           = convertedPages (batchState s)
       \<and> originalUrl (batchState (snd (startBatchProcessing URL URLb env t s)))
           = originalUrl (batchState s)
       \<and> fileNames (batchState (snd (startBatchProcessing URL URLb env t s)))
           = fileNames (batchState s)"
  using assms by (simp add: startBatchProcessing_def onStartBatch_def split: option.splits)

theorem start_rejected_while_running_witness:
  "isRunning (batchState running_state)
   \<and> startBatchProcessing simple_URL simple_URL_base docs_start 7 running_state
       = (Inl ''Batch conversion already running.'', running_state)"
  using start_rejected_while_running [OF running_state_running, where URL = simple_URL
      and URLb = simple_URL_base and env = docs_start and t = 7]
  by (simp add: running_state_running prod_eq_iff)

end
